theory Spec2Isabelle
  imports Complex_Main "HOL-Library.Sublist" "HOL-Library.Multiset"
begin

section \<open>Strings and numbers of the host language\<close>

text \<open>
  The analysis engine is TypeScript. Its strings are modelled by \<open>string\<close>, that is by
  sequences of code units below 256 (Latin-1); \<open>length\<close> is the \<open>.length\<close> of the source.
  Its numbers are modelled by \<open>rat\<close> (scores, timings) or by \<open>int\<close> and \<open>nat\<close> where the
  source only ever holds integers (heading levels, lengths, priorities); arithmetic is exact.
\<close>

definition isWhiteSpace :: "char \<Rightarrow> bool" where
  \<comment> \<open>the characters matched by \<open>\s\<close> and removed by \<open>trim()\<close>, among code units below 256\<close>
  "isWhiteSpace c = (of_char c \<in> {9, 10, 11, 12, 13, 32, 160 :: nat})"

definition trim :: "string \<Rightarrow> string" where
  "trim s = rev (dropWhile isWhiteSpace (rev (dropWhile isWhiteSpace s)))"

definition lowerChar :: "char \<Rightarrow> char" where
  "lowerChar c =
     (let n = (of_char c :: nat)
      in if (65 \<le> n \<and> n \<le> 90) \<or> (192 \<le> n \<and> n \<le> 222 \<and> n \<noteq> 215)
         then char_of (n + 32) else c)"

definition toLowerCase :: "string \<Rightarrow> string" where
  "toLowerCase s = map lowerChar s"

definition strIncludes :: "string \<Rightarrow> string \<Rightarrow> bool" where
  \<comment> \<open>\<open>s.includes(t)\<close>\<close>
  "strIncludes s t = sublist t s"

definition startsWith :: "string \<Rightarrow> string \<Rightarrow> bool" where
  "startsWith s t = prefix t s"

definition endsWith :: "string \<Rightarrow> string \<Rightarrow> bool" where
  "endsWith s t = suffix t s"

function splitRuns :: "(char \<Rightarrow> bool) \<Rightarrow> string \<Rightarrow> string list" where
  \<comment> \<open>\<open>s.split(/[...]+/)\<close> for a character class \<open>sep\<close>: the pieces between maximal runs
     of separators, with an empty first piece when \<open>s\<close> starts with a separator and an
     empty last piece when it ends with one; the empty string gives one empty piece\<close>
  "splitRuns sep [] = [[]]"
| "splitRuns sep (c # cs) =
     (if sep c then [] # splitRuns sep (dropWhile sep cs)
      else (case splitRuns sep cs of
              [] \<Rightarrow> [[c]]
            | w # ws \<Rightarrow> (c # w) # ws))"
  by pat_completeness auto
termination
  by (relation "measure (\<lambda>(sep, s). length s)")
     (auto simp: length_dropWhile_le less_Suc_eq_le)

definition joinWith :: "string \<Rightarrow> string list \<Rightarrow> string" where
  \<comment> \<open>\<open>xs.join(sep)\<close>\<close>
  "joinWith sep xs = (case xs of [] \<Rightarrow> [] | y # ys \<Rightarrow> y @ concat (map (\<lambda>z. sep @ z) ys))"

definition digitChar :: "nat \<Rightarrow> char" where
  "digitChar d = ''0123456789'' ! d"

function showNat :: "nat \<Rightarrow> string" where
  \<comment> \<open>the decimal numeral a template literal prints for a non-negative integer\<close>
  "showNat n = (if n < 10 then [digitChar n] else showNat (n div 10) @ [digitChar (n mod 10)])"
  by pat_completeness auto
termination
  by (relation "measure id") auto

declare showNat.simps [simp del]

definition showInt :: "int \<Rightarrow> string" where
  "showInt i = (if i < 0 then CHR ''-'' # showNat (nat (- i)) else showNat (nat i))"

definition jsRound :: "rat \<Rightarrow> int" where
  \<comment> \<open>\<open>Math.round\<close>: the nearest integer, a tie going up\<close>
  "jsRound x = \<lfloor>x + 1 / 2\<rfloor>"

section \<open>Data model\<close>

datatype Severity = CRITICAL | HIGH | MEDIUM | LOW

datatype AEOCategory =
    FAQ_SCHEMA | SCHEMA_MARKUP | CONTENT_STRUCTURE | FEATURED_SNIPPETS | ENTITY_OPTIMIZATION
  | META_TAGS | SEMANTIC_HTML | VOICE_SEARCH | KNOWLEDGE_GRAPH | TECHNICAL_SEO

datatype AnalysisStatus = PENDING | IN_PROGRESS | COMPLETED | FAILED

fun categoryValue :: "AEOCategory \<Rightarrow> string" where
  \<comment> \<open>the string value of each member of \<open>enum AEOCategory\<close>\<close>
  "categoryValue FAQ_SCHEMA = ''faq_schema''"
| "categoryValue SCHEMA_MARKUP = ''schema_markup''"
| "categoryValue CONTENT_STRUCTURE = ''content_structure''"
| "categoryValue FEATURED_SNIPPETS = ''featured_snippets''"
| "categoryValue ENTITY_OPTIMIZATION = ''entity_optimization''"
| "categoryValue META_TAGS = ''meta_tags''"
| "categoryValue SEMANTIC_HTML = ''semantic_html''"
| "categoryValue VOICE_SEARCH = ''voice_search''"
| "categoryValue KNOWLEDGE_GRAPH = ''knowledge_graph''"
| "categoryValue TECHNICAL_SEO = ''technical_seo''"

definition allCategories :: "AEOCategory list" where
  \<comment> \<open>\<open>Object.values(AEOCategory)\<close>, in declaration order\<close>
  "allCategories =
     [FAQ_SCHEMA, SCHEMA_MARKUP, CONTENT_STRUCTURE, FEATURED_SNIPPETS, ENTITY_OPTIMIZATION,
      META_TAGS, SEMANTIC_HTML, VOICE_SEARCH, KNOWLEDGE_GRAPH, TECHNICAL_SEO]"

record CategoryScores =
  faqSchema :: rat
  schemaMarkup :: rat
  contentStructure :: rat
  featuredSnippets :: rat
  entityOptimization :: rat
  metaTags_score :: rat
  semanticHtml :: rat
  voiceSearch :: rat
  knowledgeGraph :: rat
  technicalSeo :: rat

datatype jsval =
    JNull | JBool bool | JNum rat | JStr string | JArr "jsval list" | JObj "(string \<times> jsval) list"
  \<comment> \<open>a value of type \<open>any\<close> read from parsed JSON-LD; \<open>undefined\<close> is \<open>None\<close> of
     \<open>jsval option\<close>\<close>

datatype JSError = TypeError | Error string

record Heading =
  level :: int
  h_text :: string
  h_id :: "string option"

record SchemaMarkup =
  s_type :: string
  s_data :: "(string \<times> jsval) list"
  isValid :: bool
  s_errors :: "string list option"

record MetaTag =
  m_name :: "string option"
  m_property :: "string option"
  m_content :: string

record OpenGraphTag =
  og_property :: string
  og_content :: string

record ImageData =
  img_src :: string
  img_alt :: "string option"
  img_title :: "string option"
  img_width :: "rat option"
  img_height :: "rat option"

record LinkData =
  href :: string
  l_text :: string
  isInternal :: bool
  rel :: "string option"

record CoreWebVitals =
  lcp :: "rat option"
  fid :: "rat option"
  cls :: "rat option"

record PerformanceMetrics =
  loadTime :: rat
  pageSize :: rat
  coreWebVitals :: "CoreWebVitals option"

record ScrapedData =
  url :: string
  title :: string
  metaDescription :: string
  headings :: "Heading list"
  content :: string
  schemas :: "SchemaMarkup list"
  metaTags :: "MetaTag list"
  openGraphTags :: "OpenGraphTag list"
  images :: "ImageData list"
  links :: "LinkData list"
  performance :: PerformanceMetrics

record AnalyzerIssue =
  severity :: Severity
  i_title :: string
  i_description :: string
  impact :: string
  fixable :: bool

record AnalyzerRecommendation =
  priority :: int
  r_title :: string
  r_description :: string
  estimatedImpact :: int
  implementationTime :: int

record AnalyzerResult =
  score :: rat
  issues :: "AnalyzerIssue list"
  recommendations :: "AnalyzerRecommendation list"

record CategoryIssue = AnalyzerIssue +
  ci_category :: AEOCategory

record CategoryRecommendation = AnalyzerRecommendation +
  cr_category :: AEOCategory

record AnalysisResult =
  overallScore :: int
  categoryScores :: CategoryScores
  res_issues :: "CategoryIssue list"
  res_recommendations :: "CategoryRecommendation list"
  status :: AnalysisStatus

record AnalysisOptions =
  categories :: "AEOCategory list option"
  quick :: "bool option"
  includeRecommendations :: "bool option"

type_synonym Analyzer = "ScrapedData \<Rightarrow> bool \<Rightarrow> JSError + AnalyzerResult"
  \<comment> \<open>\<open>analyze(data, quick)\<close>; \<open>Inl\<close> is a thrown exception\<close>

type_synonym AnalyzerRegistry = "AEOCategory \<Rightarrow> Analyzer option"
  \<comment> \<open>the field \<open>analyzers: Map<AEOCategory, any>\<close> of the orchestrator\<close>

section \<open>Shared analyzer utilities (BaseAnalyzer)\<close>

definition calculateScore :: "(rat \<times> rat) list \<Rightarrow> rat" where
  \<comment> \<open>factors are pairs (weight, score)\<close>
  "calculateScore factors =
     (let totalWeight = foldl (\<lambda>s f. s + fst f) 0 factors;
          weightedSum = foldl (\<lambda>s f. s + snd f * fst f) 0 factors
      in if totalWeight > 0 then of_int (jsRound (weightedSum / totalWeight)) else 0)"

definition countWords :: "string \<Rightarrow> nat" where
  "countWords t = length (filter (\<lambda>w. length w > 0) (splitRuns isWhiteSpace (trim t)))"

fun headingHierarchy :: "Heading list \<Rightarrow> bool \<times> string list \<Rightarrow> bool \<times> string list" where
  \<comment> \<open>the loop \<open>for (i = 1; i < headings.length; i++)\<close> of validateHeadingStructure,
     over the state (isValid, issues)\<close>
  "headingHierarchy (previous # current # rest) (valid, msgs) =
     headingHierarchy (current # rest)
       (if level current > level previous + 1
        then (False, msgs @ [''Heading level jumps from H'' @ showInt (level previous)
                               @ '' to H'' @ showInt (level current)])
        else (valid, msgs))"
| "headingHierarchy _ st = st"

definition validateHeadingStructure :: "Heading list \<Rightarrow> bool \<times> string list" where
  \<comment> \<open>returns (isValid, issues)\<close>
  "validateHeadingStructure hs =
     (if length hs = 0 then (False, [''No headings found''])
      else
        let h1Count = length (filter (\<lambda>h. level h = 1) hs)
        in headingHierarchy hs
             (if h1Count = 0 then (False, [''Missing H1 tag''])
              else if h1Count > 1 then (False, [''Multiple H1 tags found''])
              else (True, [])))"

definition isSentenceEnd :: "char \<Rightarrow> bool" where
  \<comment> \<open>the class \<open>[.!?]\<close>\<close>
  "isSentenceEnd c = (c = CHR ''.'' \<or> c = CHR ''!'' \<or> c = CHR ''?'')"

definition sentencesOf :: "string \<Rightarrow> string list" where
  \<comment> \<open>\<open>text.split(/[.!?]+/).filter(s => s.trim().length > 0)\<close>\<close>
  "sentencesOf t = filter (\<lambda>s. length (trim s) > 0) (splitRuns isSentenceEnd t)"

definition findSnippetCandidates :: "string \<Rightarrow> string list" where
  "findSnippetCandidates t =
     filter (\<lambda>sentence. let wordCount = countWords sentence in wordCount \<ge> 40 \<and> wordCount \<le> 60)
       (sentencesOf t)"

fun syllableLoop :: "string \<Rightarrow> int \<times> bool \<Rightarrow> int \<times> bool" where
  \<comment> \<open>the loop of countSyllables over the state (syllables, previousWasVowel)\<close>
  "syllableLoop [] st = st"
| "syllableLoop (c # cs) (syllables, previousWasVowel) =
     (let isVowel = (c \<in> set ''aeiouy'')
      in syllableLoop cs
           (if isVowel \<and> \<not> previousWasVowel then syllables + 1 else syllables, isVowel))"

definition countSyllables :: "string \<Rightarrow> int" where
  "countSyllables w =
     (let word = toLowerCase w
      in if length word \<le> 3 then 1
         else
           let syllables = fst (syllableLoop word (0, False));
               syllables1 = (if endsWith word ''e'' then syllables - 1 else syllables)
           in max 1 syllables1)"

record Readability =
  rd_score :: rat
  avgWordsPerSentence :: rat
  avgSyllablesPerWord :: rat

definition analyzeReadability :: "string \<Rightarrow> Readability" where
  \<comment> \<open>the Flesch formula, in exact arithmetic\<close>
  "analyzeReadability t =
     (let sentences = sentencesOf t;
          wordList = filter (\<lambda>w. length w > 0) (splitRuns isWhiteSpace t);
          avgW = (if length sentences > 0
                  then of_nat (length wordList) / of_nat (length sentences) else 0);
          avgS = (if length wordList > 0
                  then of_int (foldl (\<lambda>sum word. sum + countSyllables word) 0 wordList)
                         / of_nat (length wordList)
                  else 0);
          sc = (if length sentences > 0 \<and> length wordList > 0
                then 206835 / 1000 - (1015 / 1000) * avgW - (846 / 10) * avgS else 0)
      in \<lparr> rd_score = max 0 (min 100 sc), avgWordsPerSentence = avgW,
           avgSyllablesPerWord = avgS \<rparr>)"

definition answersCommonQuestions :: "string \<Rightarrow> bool" where
  "answersCommonQuestions c =
     (let lowerContent = toLowerCase c
      in list_ex (\<lambda>word. strIncludes lowerContent (word @ '' is'')
                         \<or> strIncludes lowerContent (word @ '' are'')
                         \<or> strIncludes lowerContent (word @ '' to'')
                         \<or> strIncludes lowerContent (word @ '' can''))
           [''what'', ''how'', ''why'', ''when'', ''where'', ''who''])"

section \<open>Values of type any and the runtime library\<close>

text \<open>
  Structured-data blocks are parsed JSON, typed \<open>Record<string, any>\<close>. An object is the
  list of its properties. The functions below give the semantics of the operations the
  analyzers apply to such values: truthiness, property reads (only the names \<open>length\<close>,
  \<open>name\<close>, \<open>acceptedAnswer\<close>, \<open>text\<close> and plain data names are ever read, none of which is
  inherited from a prototype other than \<open>length\<close> of strings and arrays), conversion to
  string and to number, and the comparison \<open><\<close> with a numeric literal.

  Library functions of the runtime whose definition lies outside the repository are taken
  as a parameter \<open>rt\<close>: printing and parsing of numbers, \<open>toFixed(1)\<close>, the URL parser
  and the regular-expression engine, addressed by the pattern literal it is given.
\<close>

datatype jsnum = NaN | Fin rat | PosInf | NegInf

datatype Pattern =
    PersonNames     \<comment> \<open>\<open>/[A-Z][a-z]+ [A-Z][a-z]+/\<close>\<close>
  | Companies       \<comment> \<open>\<open>/\b[A-Z][a-z]+(?:\s+[A-Z][a-z]+)*\s+(?:Inc|Corp|LLC|Ltd)\b/\<close>\<close>
  | Institutions    \<comment> \<open>\<open>/\b[A-Z][a-z]+(?:\s+[A-Z][a-z]+)*\s+(?:University|College|School)\b/\<close>\<close>
  | StepHeading     \<comment> \<open>\<open>/step \d+|^\d+\.|first|second|third|next|finally/i\<close>\<close>
  | WhatIsQuestion  \<comment> \<open>\<open>/what is .+\?/gi\<close>\<close>
  | HowToQuestion   \<comment> \<open>\<open>/how to .+\?/gi\<close>\<close>
  | WhyQuestion     \<comment> \<open>\<open>/why .+\?/gi\<close>\<close>
  | WhenQuestion    \<comment> \<open>\<open>/when .+\?/gi\<close>\<close>
  | WhereQuestion   \<comment> \<open>\<open>/where .+\?/gi\<close>\<close>

record JSRuntime =
  numberToString :: "rat \<Rightarrow> string"             \<comment> \<open>\<open>String(n)\<close> for a number\<close>
  stringToNumber :: "string \<Rightarrow> jsnum"           \<comment> \<open>\<open>Number(s)\<close> for a string\<close>
  toFixed1 :: "rat \<Rightarrow> string"                   \<comment> \<open>\<open>n.toFixed(1)\<close>\<close>
  urlParses :: "string \<Rightarrow> bool"                 \<comment> \<open>\<open>new URL(s)\<close> does not throw\<close>
  regexTest :: "Pattern \<Rightarrow> string \<Rightarrow> bool"      \<comment> \<open>\<open>pattern.test(s)\<close>\<close>
  regexMatch :: "Pattern \<Rightarrow> string \<Rightarrow> string list"
    \<comment> \<open>\<open>s.match(pattern)\<close> for a global pattern, \<open>null\<close> being the empty list\<close>

fun truthy :: "jsval option \<Rightarrow> bool" where
  "truthy None = False"
| "truthy (Some JNull) = False"
| "truthy (Some (JBool b)) = b"
| "truthy (Some (JNum n)) = (n \<noteq> 0)"
| "truthy (Some (JStr s)) = (s \<noteq> [])"
| "truthy (Some (JArr xs)) = True"
| "truthy (Some (JObj kv)) = True"

fun getProp :: "jsval \<Rightarrow> string \<Rightarrow> JSError + jsval option" where
  \<comment> \<open>\<open>v.p\<close>; reading a property of \<open>null\<close> throws\<close>
  "getProp JNull p = Inl TypeError"
| "getProp (JObj kv) p = Inr (map_of kv p)"
| "getProp (JArr xs) p = Inr (if p = ''length'' then Some (JNum (of_nat (length xs))) else None)"
| "getProp (JStr s) p = Inr (if p = ''length'' then Some (JNum (of_nat (length s))) else None)"
| "getProp (JBool b) p = Inr None"
| "getProp (JNum n) p = Inr None"

fun toStr :: "JSRuntime \<Rightarrow> jsval \<Rightarrow> string" where
  \<comment> \<open>conversion to string, as in a template literal\<close>
  "toStr rt JNull = ''null''"
| "toStr rt (JBool b) = (if b then ''true'' else ''false'')"
| "toStr rt (JNum n) = numberToString rt n"
| "toStr rt (JStr s) = s"
| "toStr rt (JArr xs) = joinWith '','' (map (\<lambda>x. if x = JNull then [] else toStr rt x) xs)"
| "toStr rt (JObj kv) = ''[object Object]''"

fun toNumber :: "JSRuntime \<Rightarrow> jsval option \<Rightarrow> jsnum" where
  "toNumber rt None = NaN"
| "toNumber rt (Some JNull) = Fin 0"
| "toNumber rt (Some (JBool b)) = Fin (if b then 1 else 0)"
| "toNumber rt (Some (JNum n)) = Fin n"
| "toNumber rt (Some (JStr s)) = stringToNumber rt s"
| "toNumber rt (Some (JArr xs)) = stringToNumber rt (toStr rt (JArr xs))"
| "toNumber rt (Some (JObj kv)) = stringToNumber rt (toStr rt (JObj kv))"

definition jsLess :: "JSRuntime \<Rightarrow> jsval option \<Rightarrow> rat \<Rightarrow> bool" where
  \<comment> \<open>\<open>v < n\<close> for a numeric literal \<open>n\<close>\<close>
  "jsLess rt v n = (case toNumber rt v of Fin x \<Rightarrow> x < n | NegInf \<Rightarrow> True | PosInf \<Rightarrow> False | NaN \<Rightarrow> False)"

fun jsIncludes :: "jsval \<Rightarrow> string \<Rightarrow> JSError + bool" where
  \<comment> \<open>\<open>v.includes(x)\<close> for a truthy \<open>v\<close>: a method of strings and arrays only\<close>
  "jsIncludes (JStr s) x = Inr (strIncludes s x)"
| "jsIncludes (JArr xs) x = Inr (JStr x \<in> set xs)"
| "jsIncludes v x = Inl TypeError"

fun filterE :: "('a \<Rightarrow> JSError + bool) \<Rightarrow> 'a list \<Rightarrow> JSError + 'a list" where
  \<comment> \<open>\<open>xs.filter(f)\<close> for a callback that may throw\<close>
  "filterE f [] = Inr []"
| "filterE f (x # xs) =
     (case f x of
        Inl e \<Rightarrow> Inl e
      | Inr b \<Rightarrow> (case filterE f xs of
                    Inl e \<Rightarrow> Inl e
                  | Inr ys \<Rightarrow> Inr (if b then x # ys else ys)))"

section \<open>FAQ schema analyzer\<close>

definition questionWords :: "string list" where
  "questionWords =
     [''what'', ''how'', ''why'', ''when'', ''where'', ''who'', ''which'', ''can'', ''is'', ''are'',
      ''do'', ''does'']"

definition isFAQSchema :: "SchemaMarkup \<Rightarrow> JSError + bool" where
  \<comment> \<open>the callback \<open>schema.type === 'FAQPage' || (schema.data['@type'] &&
     schema.data['@type'].includes('FAQPage'))\<close>, as a truth value\<close>
  "isFAQSchema schema =
     (if s_type schema = ''FAQPage'' then Inr True
      else (case map_of (s_data schema) ''@type'' of
              None \<Rightarrow> Inr False
            | Some t \<Rightarrow> if truthy (Some t) then jsIncludes t ''FAQPage'' else Inr False))"

definition isGoodQuestion :: "JSRuntime \<Rightarrow> jsval \<Rightarrow> JSError + bool" where
  "isGoodQuestion rt question =
     (if \<not> truthy (Some question) then Inr False
      else (case getProp question ''length'' of
              Inl e \<Rightarrow> Inl e
            | Inr len \<Rightarrow>
                if jsLess rt len 10 then Inr False
                else (case question of
                        JStr q \<Rightarrow>
                          Inr (list_ex (\<lambda>word. strIncludes (toLowerCase q) word) questionWords
                               \<and> endsWith q ''?'')
                      | _ \<Rightarrow> Inl TypeError)))"

definition isGoodAnswer :: "jsval \<Rightarrow> JSError + bool" where
  "isGoodAnswer answer =
     (if \<not> truthy (Some answer) then Inr False
      else (case answer of
              JStr a \<Rightarrow>
                (let wordCount = length (splitRuns isWhiteSpace a)
                 in Inr (wordCount \<ge> 20 \<and> wordCount \<le> 80))
            | _ \<Rightarrow> Inl TypeError))"

definition orEmptyString :: "jsval option \<Rightarrow> jsval" where
  \<comment> \<open>\<open>v || ''\<close>\<close>
  "orEmptyString v = (if truthy v then the v else JStr [])"

definition acceptedAnswerText :: "jsval \<Rightarrow> JSError + jsval option" where
  \<comment> \<open>\<open>entry.acceptedAnswer?.text\<close>\<close>
  "acceptedAnswerText entry =
     (case getProp entry ''acceptedAnswer'' of
        Inl e \<Rightarrow> Inl e
      | Inr None \<Rightarrow> Inr None
      | Inr (Some JNull) \<Rightarrow> Inr None
      | Inr (Some a) \<Rightarrow> getProp a ''text'')"

fun faqQualityLoop :: "JSRuntime \<Rightarrow> jsval list \<Rightarrow> rat \<Rightarrow> JSError + rat" where
  \<comment> \<open>the loop \<open>for (const entry of faqEntries)\<close> over the running \<open>qualityScore\<close>\<close>
  "faqQualityLoop rt [] qualityScore = Inr qualityScore"
| "faqQualityLoop rt (entry # rest) qualityScore =
     (case getProp entry ''name'' of
        Inl e \<Rightarrow> Inl e
      | Inr nm \<Rightarrow>
          (case acceptedAnswerText entry of
             Inl e \<Rightarrow> Inl e
           | Inr txt \<Rightarrow>
               (case isGoodQuestion rt (orEmptyString nm) of
                  Inl e \<Rightarrow> Inl e
                | Inr goodQ \<Rightarrow>
                    (case isGoodAnswer (orEmptyString txt) of
                       Inl e \<Rightarrow> Inl e
                     | Inr goodA \<Rightarrow>
                         faqQualityLoop rt rest
                           (qualityScore + (if goodQ then 3 else 0) + (if goodA then 2 else 0))))))"

fun iterate :: "jsval \<Rightarrow> JSError + jsval list" where
  \<comment> \<open>the elements \<open>for ... of\<close> visits: those of an array, the characters of a
     string; any other value is not iterable\<close>
  "iterate (JArr xs) = Inr xs"
| "iterate (JStr s) = Inr (map (\<lambda>c. JStr [c]) s)"
| "iterate v = Inl TypeError"

definition evaluateFAQQuality :: "JSRuntime \<Rightarrow> jsval \<Rightarrow> JSError + rat" where
  "evaluateFAQQuality rt faqEntries =
     (case iterate faqEntries of
        Inl e \<Rightarrow> Inl e
      | Inr entries \<Rightarrow>
          (case faqQualityLoop rt entries 70 of
             Inl e \<Rightarrow> Inl e
           | Inr qualityScore \<Rightarrow> Inr (min 100 qualityScore)))"

definition isQuestionHeading :: "string \<Rightarrow> bool" where
  "isQuestionHeading heading =
     (list_ex (\<lambda>word. startsWith heading word) questionWords \<and> strIncludes heading ''?'')"

definition faqQuestionPatterns :: "Pattern list" where
  "faqQuestionPatterns = [WhatIsQuestion, HowToQuestion, WhyQuestion, WhenQuestion, WhereQuestion]"

definition findFAQIndicators :: "JSRuntime \<Rightarrow> ScrapedData \<Rightarrow> string list" where
  "findFAQIndicators rt d =
     (let lowered = toLowerCase (content d);
          fromHeadings =
            map h_text
              (filter (\<lambda>heading.
                   let headingText = toLowerCase (h_text heading)
                   in strIncludes headingText ''faq''
                      \<or> strIncludes headingText ''frequently asked''
                      \<or> strIncludes headingText ''common questions''
                      \<or> isQuestionHeading headingText)
                 (headings d));
          fromContent = concat (map (\<lambda>pattern. take 3 (regexMatch rt pattern lowered)) faqQuestionPatterns)
      in fromHeadings @ fromContent)"

definition missingFAQIssue :: AnalyzerIssue where
  "missingFAQIssue =
     \<lparr> severity = HIGH, i_title = ''Missing FAQ Schema'',
       i_description = ''No FAQ schema markup found on the page'',
       impact = ''Reduced visibility in voice search and featured snippets'', fixable = True \<rparr>"

definition faqSchemaCheck ::
  "JSRuntime \<Rightarrow> SchemaMarkup list \<Rightarrow> JSError + AnalyzerResult" where
  \<comment> \<open>the first conditional of \<open>analyze\<close>, from the filtered \<open>faqSchemas\<close>: the score
     before the final cap, the issues and the recommendations it pushes\<close>
  "faqSchemaCheck rt faqSchemas =
     (if length faqSchemas = 0 then
        Inr \<lparr> score = 0, issues = [missingFAQIssue],
              recommendations =
                [\<lparr> priority = 1, r_title = ''Add FAQ Schema Markup'',
                    r_description = ''Generate and implement FAQ schema based on page content'',
                    estimatedImpact = 25, implementationTime = 30 \<rparr>] \<rparr>
      else
        (case filter isValid faqSchemas of
           [] \<Rightarrow>
             Inr \<lparr> score = 20,
                   issues =
                     [\<lparr> severity = HIGH, i_title = ''Invalid FAQ Schema'',
                         i_description = ''FAQ schema markup contains errors'',
                         impact = ''Schema may not be recognized by search engines'',
                         fixable = True \<rparr>],
                   recommendations = [] \<rparr>
         | first # others \<Rightarrow>
             (let mainEntity =
                    (let v = map_of (s_data first) ''mainEntity''
                     in if truthy v then the v else JArr [])
              in case getProp mainEntity ''length'' of
                   Inl e \<Rightarrow> Inl e
                 | Inr len \<Rightarrow>
                     if len = Some (JNum 0) then
                       Inr \<lparr> score = 30,
                             issues =
                               [\<lparr> severity = MEDIUM, i_title = ''Empty FAQ Schema'',
                                   i_description = ''FAQ schema exists but contains no questions'',
                                   impact = ''No benefit from FAQ schema implementation'',
                                   fixable = True \<rparr>],
                             recommendations = [] \<rparr>
                     else if jsLess rt len 3 then
                       Inr \<lparr> score = 50,
                             issues =
                               [\<lparr> severity = MEDIUM, i_title = ''Insufficient FAQ Content'',
                                   i_description =
                                     ''Only '' @ (case len of None \<Rightarrow> ''undefined'' | Some l \<Rightarrow> toStr rt l)
                                       @ '' FAQ entries found. Recommended: 5-8 entries'',
                                   impact = ''Limited coverage for voice search queries'',
                                   fixable = True \<rparr>],
                             recommendations =
                               [\<lparr> priority = 2, r_title = ''Expand FAQ Content'',
                                   r_description =
                                     ''Add more relevant FAQ entries to improve coverage'',
                                   estimatedImpact = 15, implementationTime = 20 \<rparr>] \<rparr>
                     else
                       (case evaluateFAQQuality rt mainEntity of
                          Inl e \<Rightarrow> Inl e
                        | Inr quality \<Rightarrow>
                            Inr \<lparr> score = quality, issues = [],
                                  recommendations =
                                    (if quality < 80 then
                                       [\<lparr> priority = 3, r_title = ''Optimize FAQ Content'',
                                           r_description =
                                             ''Improve FAQ answers for better voice search optimization'',
                                           estimatedImpact = 10, implementationTime = 15 \<rparr>]
                                     else []) \<rparr>))))"

definition FAQSchemaAnalyzer_analyze :: "JSRuntime \<Rightarrow> Analyzer" where
  "FAQSchemaAnalyzer_analyze rt d quickMode =
     (case filterE isFAQSchema (schemas d) of
        Inl e \<Rightarrow> Inl e
      | Inr faqSchemas \<Rightarrow>
          (case faqSchemaCheck rt faqSchemas of
             Inl e \<Rightarrow> Inl e
           | Inr checked \<Rightarrow>
               (let faqIndicators = (if \<not> quickMode then findFAQIndicators rt d else []);
                    converted =
                      (if \<not> quickMode \<and> length faqIndicators > 0 \<and> length faqSchemas = 0 then
                         [\<lparr> priority = 1, r_title = ''Convert Existing FAQ Content'',
                             r_description =
                               ''Found '' @ showNat (length faqIndicators)
                                 @ '' potential FAQ sections that could be structured as schema'',
                             estimatedImpact = 20, implementationTime = 25 \<rparr>]
                       else [])
                in Inr \<lparr> score = min 100 (score checked), issues = issues checked,
                         recommendations = recommendations checked @ converted \<rparr>)))"

section \<open>Meta tags analyzer\<close>

definition mkIssue :: "Severity \<Rightarrow> string \<Rightarrow> string \<Rightarrow> string \<Rightarrow> AnalyzerIssue" where
  \<comment> \<open>an issue literal \<open>{ severity, title, description, impact, fixable: true }\<close>\<close>
  "mkIssue sev ttl descr imp =
     \<lparr> severity = sev, i_title = ttl, i_description = descr, impact = imp, fixable = True \<rparr>"

definition mkRecommendation :: "int \<Rightarrow> string \<Rightarrow> string \<Rightarrow> int \<Rightarrow> int \<Rightarrow> AnalyzerRecommendation" where
  \<comment> \<open>a recommendation literal\<close>
  "mkRecommendation prio ttl descr est time =
     \<lparr> priority = prio, r_title = ttl, r_description = descr, estimatedImpact = est,
       implementationTime = time \<rparr>"

definition containsBrandName :: "string \<Rightarrow> bool" where
  \<comment> \<open>the indicators are \<open>|\<close>, \<open>-\<close>, \<open>:\<close> and the bullet U+2022; the bullet lies outside
     the modelled alphabet and occurs in no modelled title\<close>
  "containsBrandName t = list_ex (\<lambda>indicator. strIncludes t indicator) [''|'', ''-'', '':'']"

definition hasCallToAction :: "string \<Rightarrow> bool" where
  "hasCallToAction descr =
     (let lowerDesc = toLowerCase descr
      in list_ex (\<lambda>word. strIncludes lowerDesc word)
           [''learn'', ''discover'', ''find'', ''get'', ''download'', ''buy'', ''shop'',
            ''read'', ''explore'', ''try'', ''start'', ''join'', ''sign up'', ''contact''])"

definition hasDuplicateContent :: "string \<Rightarrow> bool" where
  "hasDuplicateContent descr =
     (let lowerDesc = toLowerCase descr
      in list_ex (\<lambda>phrase. strIncludes lowerDesc phrase)
           [''welcome to our website'', ''this is the homepage'', ''default description'',
            ''lorem ipsum''])"

definition analyzeTitleTag :: "string \<Rightarrow> AnalyzerIssue list \<Rightarrow> rat \<times> AnalyzerIssue list" where
  \<comment> \<open>returns the sub-score and the issue list after the pushes\<close>
  "analyzeTitleTag t iss =
     (if t = [] \<or> length (trim t) = 0 then
        (0, iss @ [mkIssue CRITICAL ''Missing Title Tag'' ''No title tag found on the page''
                     ''Severely impacts search engine rankings and click-through rates''])
      else
        let titleLength = length t;
            (score1, iss1) =
              (if titleLength < 30 then
                 (50 - 15,
                  iss @ [mkIssue MEDIUM ''Title Too Short''
                           (''Title is '' @ showNat titleLength
                              @ '' characters. Recommended: 50-60 characters'')
                           ''May not fully utilize search result space''])
               else if titleLength > 60 then
                 (50 - 10,
                  iss @ [mkIssue MEDIUM ''Title Too Long''
                           (''Title is '' @ showNat titleLength
                              @ '' characters. Recommended: 50-60 characters'')
                           ''Title may be truncated in search results''])
               else (50 + 20, iss));
            wordList = splitRuns isWhiteSpace (toLowerCase t);
            (score2, iss2) =
              (if length wordList > length (remdups wordList) then
                 (score1 - 5,
                  iss1 @ [mkIssue LOW ''Duplicate Words in Title'' ''Title contains repeated words''
                            ''Reduces title effectiveness''])
               else (score1, iss1));
            score3 = (if containsBrandName t then score2 + 10 else score2)
        in (max 0 score3, iss2))"

definition analyzeMetaDescription :: "string \<Rightarrow> AnalyzerIssue list \<Rightarrow> rat \<times> AnalyzerIssue list" where
  "analyzeMetaDescription descr iss =
     (if descr = [] \<or> length (trim descr) = 0 then
        (0, iss @ [mkIssue HIGH ''Missing Meta Description'' ''No meta description found''
                     ''Search engines will generate description, reducing click-through rates''])
      else
        let descLength = length descr;
            (score1, iss1) =
              (if descLength < 120 then
                 (50 - 15,
                  iss @ [mkIssue MEDIUM ''Meta Description Too Short''
                           (''Description is '' @ showNat descLength
                              @ '' characters. Recommended: 150-160 characters'')
                           ''Not fully utilizing search result space''])
               else if descLength > 160 then
                 (50 - 10,
                  iss @ [mkIssue MEDIUM ''Meta Description Too Long''
                           (''Description is '' @ showNat descLength
                              @ '' characters. Recommended: 150-160 characters'')
                           ''Description may be truncated in search results''])
               else (50 + 25, iss));
            (score2, iss2) =
              (if hasCallToAction descr then (score1 + 15, iss1)
               else
                 (score1,
                  iss1 @ [mkIssue LOW ''No Call-to-Action in Description''
                            ''Meta description lacks compelling call-to-action''
                            ''May reduce click-through rates'']));
            (score3, iss3) =
              (if hasDuplicateContent descr then
                 (score2 - 10,
                  iss2 @ [mkIssue LOW ''Generic Meta Description''
                            ''Meta description appears to be generic or duplicated''
                            ''Reduces uniqueness and effectiveness''])
               else (score2, iss2))
        in (max 0 score3, iss3))"

definition isNamed :: "MetaTag \<Rightarrow> bool" where
  \<comment> \<open>the truthiness of \<open>tag.name\<close>\<close>
  "isNamed tag = (case m_name tag of None \<Rightarrow> False | Some n \<Rightarrow> n \<noteq> [])"

definition metaTagMap :: "MetaTag list \<Rightarrow> (string \<rightharpoonup> string)" where
  \<comment> \<open>the \<open>Map\<close> filled by \<open>tagMap.set(tag.name.toLowerCase(), tag.content)\<close> for
     each named tag, a later tag replacing an earlier one of the same key\<close>
  "metaTagMap tags =
     foldl (\<lambda>m tag. if isNamed tag then m(toLowerCase (the (m_name tag)) \<mapsto> m_content tag) else m)
       Map.empty tags"

definition countPresent :: "(string \<rightharpoonup> string) \<Rightarrow> string list \<Rightarrow> nat" where
  \<comment> \<open>how many of the given keys the map has\<close>
  "countPresent m keys = length (filter (\<lambda>k. m k \<noteq> None) keys)"

definition IMPORTANT_META_TAGS :: "string list" where
  "IMPORTANT_META_TAGS = [''description'', ''keywords'', ''author'', ''viewport'', ''robots'']"

definition IMPORTANT_OG_TAGS :: "string list" where
  "IMPORTANT_OG_TAGS = [''og:title'', ''og:description'', ''og:image'', ''og:url'', ''og:type'']"

definition IMPORTANT_TWITTER_TAGS :: "string list" where
  "IMPORTANT_TWITTER_TAGS =
     [''twitter:card'', ''twitter:title'', ''twitter:description'', ''twitter:image'']"

definition analyzeMetaTags :: "MetaTag list \<Rightarrow> AnalyzerIssue list \<Rightarrow> rat \<times> AnalyzerIssue list" where
  "analyzeMetaTags tags iss =
     (let tagMap = metaTagMap tags;
          sc = 15 * of_nat (countPresent tagMap IMPORTANT_META_TAGS);
          iss1 =
            (case tagMap ''robots'' of
               Some robots \<Rightarrow>
                 (let robotsContent = toLowerCase robots
                  in if strIncludes robotsContent ''noindex'' \<or> strIncludes robotsContent ''nofollow''
                     then iss @ [mkIssue MEDIUM ''Restrictive Robots Meta Tag''
                                   (''Robots tag contains: '' @ robotsContent)
                                   ''May prevent search engine indexing'']
                     else iss)
             | None \<Rightarrow>
                 iss @ [mkIssue LOW ''Missing Robots Meta Tag'' ''No robots meta tag specified''
                          ''Search engines use default behavior'']);
          iss2 =
            (if tagMap ''viewport'' = None then
               iss1 @ [mkIssue MEDIUM ''Missing Viewport Meta Tag''
                         ''No viewport meta tag for mobile optimization''
                         ''Poor mobile user experience'']
             else iss1)
      in (min 100 sc, iss2))"

definition openGraphMap :: "OpenGraphTag list \<Rightarrow> (string \<rightharpoonup> string)" where
  "openGraphMap tags =
     foldl (\<lambda>m tag. m(toLowerCase (og_property tag) \<mapsto> og_content tag)) Map.empty tags"

definition analyzeOpenGraphTags ::
  "JSRuntime \<Rightarrow> OpenGraphTag list \<Rightarrow> AnalyzerIssue list \<Rightarrow> rat \<times> AnalyzerIssue list" where
  "analyzeOpenGraphTags rt ogTags iss =
     (let ogMap = openGraphMap ogTags
      in if length ogTags = 0 then
           (0, iss @ [mkIssue MEDIUM ''Missing Open Graph Tags''
                        ''No Open Graph tags found for social media sharing''
                        ''Poor social media sharing appearance''])
         else
           let sc = 20 * of_nat (countPresent ogMap IMPORTANT_OG_TAGS);
               (sc1, iss1) =
                 (case ogMap ''og:image'' of
                    Some imageUrl \<Rightarrow>
                      if \<not> urlParses rt imageUrl then
                        (sc - 10,
                         iss @ [mkIssue LOW ''Invalid OG Image URL''
                                  ''Open Graph image URL is not valid''
                                  ''Image may not display in social shares''])
                      else (sc, iss)
                  | None \<Rightarrow> (sc, iss))
           in (min 100 sc1, iss1))"

definition isTwitterTag :: "MetaTag \<Rightarrow> bool" where
  \<comment> \<open>\<open>tag.name && tag.name.startsWith('twitter:')\<close>\<close>
  "isTwitterTag tag = (isNamed tag \<and> startsWith (the (m_name tag)) ''twitter:'')"

definition twitterTagMap :: "MetaTag list \<Rightarrow> (string \<rightharpoonup> string)" where
  "twitterTagMap tags =
     foldl (\<lambda>m tag. if isTwitterTag tag then m(toLowerCase (the (m_name tag)) \<mapsto> m_content tag)
                      else m)
       Map.empty tags"

definition analyzeTwitterTags :: "MetaTag list \<Rightarrow> AnalyzerIssue list \<Rightarrow> rat \<times> AnalyzerIssue list" where
  \<comment> \<open>the map is empty exactly when no tag was entered\<close>
  "analyzeTwitterTags tags iss =
     (let twitterMap = twitterTagMap tags
      in if filter isTwitterTag tags = [] then
           (0, iss @ [mkIssue LOW ''Missing Twitter Card Tags'' ''No Twitter Card tags found''
                        ''Suboptimal Twitter sharing appearance''])
         else (min 100 (25 * of_nat (countPresent twitterMap IMPORTANT_TWITTER_TAGS)), iss))"

definition addRecommendations :: "ScrapedData \<Rightarrow> AnalyzerRecommendation list \<Rightarrow> AnalyzerRecommendation list" where
  "addRecommendations d recs =
     (let recs1 =
            (if title d = [] \<or> length (title d) < 50 \<or> length (title d) > 60 then
               recs @ [mkRecommendation 1 ''Optimize Title Tag''
                         ''Create compelling 50-60 character title with target keywords'' 25 10]
             else recs);
          recs2 =
            (if metaDescription d = [] \<or> length (metaDescription d) < 150
                \<or> length (metaDescription d) > 160 then
               recs1 @ [mkRecommendation 1 ''Optimize Meta Description''
                          ''Write compelling 150-160 character description with call-to-action''
                          20 15]
             else recs1);
          recs3 =
            (if length (openGraphTags d) < 4 then
               recs2 @ [mkRecommendation 2 ''Add Complete Open Graph Tags''
                          ''Implement full set of OG tags for social media optimization'' 15 20]
             else recs2);
          hasTwitterCards = list_ex isTwitterTag (metaTags d)
      in if \<not> hasTwitterCards then
           recs3 @ [mkRecommendation 3 ''Add Twitter Card Tags''
                      ''Implement Twitter Card markup for better Twitter sharing'' 10 15]
         else recs3)"

definition MetaTagsAnalyzer_analyze :: "JSRuntime \<Rightarrow> Analyzer" where
  "MetaTagsAnalyzer_analyze rt d quickMode =
     (let (titleScore, iss1) = analyzeTitleTag (title d) [];
          (descriptionScore, iss2) = analyzeMetaDescription (metaDescription d) iss1;
          (metaTagsScore, iss3) = analyzeMetaTags (metaTags d) iss2;
          (ogScore, iss4) = analyzeOpenGraphTags rt (openGraphTags d) iss3;
          (twitterScore, iss5) = analyzeTwitterTags (metaTags d) iss4;
          sc = calculateScore
                 [(30, titleScore), (25, descriptionScore), (20, metaTagsScore), (15, ogScore),
                  (10, twitterScore)];
          recs = (if \<not> quickMode then addRecommendations d [] else [])
      in Inr \<lparr> score = min 100 sc, issues = iss5, recommendations = recs \<rparr>)"

section \<open>Content structure, featured snippets, entities, knowledge graph, semantic HTML,
  voice search and technical SEO analyzers\<close>

definition analyzeHeadingStructure :: "Heading list \<Rightarrow> AnalyzerIssue list \<Rightarrow> rat \<times> AnalyzerIssue list" where
  "analyzeHeadingStructure hs iss =
     (let validation = validateHeadingStructure hs
      in if \<not> fst validation then
           (30, iss @ [mkIssue MEDIUM ''Poor Heading Structure'' (joinWith '', '' (snd validation))
                         ''Reduced content comprehension for AI systems''])
         else (80, iss))"

definition analyzeContentReadability ::
  "JSRuntime \<Rightarrow> string \<Rightarrow> AnalyzerIssue list \<Rightarrow> rat \<times> AnalyzerIssue list" where
  "analyzeContentReadability rt c iss =
     (let readability = analyzeReadability c
      in if rd_score readability < 60 then
           (40, iss @ [mkIssue MEDIUM ''Poor Content Readability''
                         (''Readability score: '' @ toFixed1 rt (rd_score readability))
                         ''Difficult for AI systems to understand and extract information''])
         else (80, iss))"

definition analyzeContentStructure :: "string \<Rightarrow> AnalyzerIssue list \<Rightarrow> rat \<times> AnalyzerIssue list" where
  "analyzeContentStructure c iss =
     (let wordCount = countWords c
      in if wordCount < 300 then
           (20, iss @ [mkIssue HIGH ''Insufficient Content Length''
                         (''Content has '' @ showNat wordCount @ '' words. Recommended: 300+ words'')
                         ''Limited information for AI systems to process''])
         else (70, iss))"

definition ContentStructureAnalyzer_analyze :: "JSRuntime \<Rightarrow> Analyzer" where
  "ContentStructureAnalyzer_analyze rt d quickMode =
     (let (headingScore, iss1) = analyzeHeadingStructure (headings d) [];
          (readabilityScore, iss2) = analyzeContentReadability rt (content d) iss1;
          (structureScore, iss3) = analyzeContentStructure (content d) iss2;
          sc = calculateScore [(40, headingScore), (30, readabilityScore), (30, structureScore)];
          recs = (if \<not> quickMode then
                    [mkRecommendation 1 ''Optimize Content Structure''
                       ''Restructure content with clear headings and concise paragraphs'' 20 45]
                  else [])
      in Inr \<lparr> score = sc, issues = iss3, recommendations = recs \<rparr>)"

definition FeaturedSnippetsAnalyzer_analyze :: Analyzer where
  "FeaturedSnippetsAnalyzer_analyze d quickMode =
     (let snippetCandidates = findSnippetCandidates (content d)
      in Inr \<lparr> score = (if length snippetCandidates > 0 then 60 else 20),
               issues =
                 (if length snippetCandidates = 0 then
                    [mkIssue MEDIUM ''No Featured Snippet Optimization''
                       ''Content not optimized for featured snippets''
                       ''Missing opportunities for position zero rankings'']
                  else []),
               recommendations =
                 [mkRecommendation 1 ''Optimize for Featured Snippets''
                    ''Create 40-60 word answers to common questions'' 25 30] \<rparr>)"

definition hasEntityMentions :: "JSRuntime \<Rightarrow> string \<Rightarrow> bool" where
  "hasEntityMentions rt c =
     list_ex (\<lambda>pattern. regexTest rt pattern c) [PersonNames, Companies, Institutions]"

definition EntityOptimizationAnalyzer_analyze :: "JSRuntime \<Rightarrow> Analyzer" where
  "EntityOptimizationAnalyzer_analyze rt d quickMode =
     (let mentions = hasEntityMentions rt (content d)
      in Inr \<lparr> score = (if \<not> mentions then 30 else 50),
               issues =
                 (if \<not> mentions then
                    [mkIssue MEDIUM ''Limited Entity Coverage''
                       ''Content lacks clear entity mentions and relationships''
                       ''Reduced semantic understanding by AI systems'']
                  else []),
               recommendations =
                 [mkRecommendation 2 ''Enhance Entity Coverage''
                    ''Add relevant entity mentions and semantic relationships'' 15 25] \<rparr>)"

definition hasAuthoritySignals :: "ScrapedData \<Rightarrow> bool" where
  "hasAuthoritySignals d =
     list_ex (\<lambda>link. list_ex (\<lambda>domain. strIncludes (href link) domain)
                       [''wikipedia.org'', ''gov'', ''edu''])
       (links d)"

definition KnowledgeGraphAnalyzer_analyze :: Analyzer where
  "KnowledgeGraphAnalyzer_analyze d quickMode =
     (let signals = hasAuthoritySignals d
      in Inr \<lparr> score = (if \<not> signals then 30 else 50),
               issues =
                 (if \<not> signals then
                    [mkIssue LOW ''Limited Knowledge Graph Signals''
                       ''Content lacks clear authority and entity relationship signals''
                       ''Reduced knowledge graph visibility'']
                  else []),
               recommendations =
                 [mkRecommendation 4 ''Enhance Knowledge Graph Signals''
                    ''Add author profiles, entity relationships, and authority links'' 10 20] \<rparr>)"

definition hasSemanticStructure :: "ScrapedData \<Rightarrow> bool" where
  "hasSemanticStructure d = (length (headings d) > 0 \<and> length (content d) > 300)"

definition SemanticHTMLAnalyzer_analyze :: Analyzer where
  "SemanticHTMLAnalyzer_analyze d quickMode =
     (let semantic = hasSemanticStructure d
      in Inr \<lparr> score = (if \<not> semantic then 40 else 60),
               issues =
                 (if \<not> semantic then
                    [mkIssue MEDIUM ''Poor Semantic HTML Structure''
                       ''Content lacks proper semantic HTML elements''
                       ''Reduced accessibility and AI comprehension'']
                  else []),
               recommendations =
                 [mkRecommendation 2 ''Improve Semantic HTML''
                    ''Use proper semantic elements like <article>, <section>, <nav>'' 15 30] \<rparr>)"

definition VoiceSearchAnalyzer_analyze :: Analyzer where
  "VoiceSearchAnalyzer_analyze d quickMode =
     (let hasConversationalContent = answersCommonQuestions (content d)
      in Inr \<lparr> score = (if hasConversationalContent then 70 else 30),
               issues =
                 (if \<not> hasConversationalContent then
                    [mkIssue MEDIUM ''Not Optimized for Voice Search''
                       ''Content lacks conversational, question-answering format''
                       ''Reduced visibility in voice search results'']
                  else []),
               recommendations =
                 [mkRecommendation 3 ''Optimize for Voice Search''
                    ''Add natural language answers to common questions'' 12 25] \<rparr>)"

definition slowLcp :: "PerformanceMetrics \<Rightarrow> rat option" where
  \<comment> \<open>the value of \<open>cwv.lcp\<close> when \<open>coreWebVitals\<close> is present and
     \<open>cwv.lcp && cwv.lcp > 2500\<close> holds\<close>
  "slowLcp p =
     (case coreWebVitals p of
        None \<Rightarrow> None
      | Some cwv \<Rightarrow>
          (case lcp cwv of
             None \<Rightarrow> None
           | Some v \<Rightarrow> if v \<noteq> 0 \<and> v > 2500 then Some v else None))"

definition TechnicalSEOAnalyzer_analyze :: "JSRuntime \<Rightarrow> Analyzer" where
  "TechnicalSEOAnalyzer_analyze rt d quickMode =
     (let p = performance d;
          (score1, iss1) =
            (if loadTime p > 3000 then
               (60 - 20,
                [mkIssue HIGH ''Slow Page Load Time''
                   (''Page loads in '' @ numberToString rt (loadTime p) @ ''ms. Target: <3000ms'')
                   ''Poor user experience and search rankings''])
             else (60, []));
          (score2, iss2) =
            (if pageSize p > 3000000 then
               (score1 - 10,
                iss1 @ [mkIssue MEDIUM ''Large Page Size''
                          (''Page size: '' @ toFixed1 rt (pageSize p / 1024 / 1024) @ ''MB'')
                          ''Slower loading, especially on mobile''])
             else (score1, iss1));
          (score3, iss3) =
            (case slowLcp p of
               Some v \<Rightarrow>
                 (score2 - 15,
                  iss2 @ [mkIssue MEDIUM ''Poor Largest Contentful Paint''
                            (''LCP: '' @ numberToString rt v @ ''ms. Target: <2500ms'')
                            ''Poor Core Web Vitals score''])
             | None \<Rightarrow> (score2, iss2))
      in Inr \<lparr> score = score3, issues = iss3,
               recommendations =
                 [mkRecommendation 2 ''Optimize Technical Performance''
                    ''Improve page speed, Core Web Vitals, and mobile optimization'' 20 60] \<rparr>)"

section \<open>Schema markup analyzer\<close>

definition IMPORTANT_SCHEMA_TYPES :: "string list" where
  "IMPORTANT_SCHEMA_TYPES =
     [''Article'', ''BlogPosting'', ''Product'', ''LocalBusiness'', ''Organization'', ''Person'',
      ''WebSite'', ''WebPage'', ''BreadcrumbList'', ''HowTo'', ''Recipe'', ''Event'']"

definition has :: "(string \<times> jsval) list \<Rightarrow> string \<Rightarrow> bool" where
  \<comment> \<open>the truthiness of \<open>data.p\<close>\<close>
  "has dat p = truthy (map_of dat p)"

definition points :: "(string \<times> jsval) list \<Rightarrow> (string \<times> rat) list \<Rightarrow> rat" where
  \<comment> \<open>a run of statements \<open>if (data.p) score += n\<close>, given as the pairs (p, n)\<close>
  "points dat table = foldl (\<lambda>sc (p, n). if has dat p then sc + n else sc) 0 table"

definition evaluateArticleSchema :: "(string \<times> jsval) list \<Rightarrow> rat" where
  "evaluateArticleSchema dat =
     points dat
       [(''headline'', 3), (''author'', 3), (''datePublished'', 3), (''image'', 2),
        (''publisher'', 2), (''description'', 2), (''mainEntityOfPage'', 2),
        (''dateModified'', 1), (''wordCount'', 1), (''articleSection'', 1)]"

definition evaluateOrganizationSchema :: "(string \<times> jsval) list \<Rightarrow> rat" where
  "evaluateOrganizationSchema dat =
     points dat
       [(''name'', 4), (''url'', 3), (''logo'', 3), (''address'', 3), (''telephone'', 2),
        (''email'', 2), (''sameAs'', 2), (''description'', 1)]"

definition evaluateLocalBusinessSchema :: "(string \<times> jsval) list \<Rightarrow> rat" where
  "evaluateLocalBusinessSchema dat =
     points dat
       [(''name'', 3), (''address'', 4), (''telephone'', 3), (''openingHours'', 3), (''geo'', 3),
        (''url'', 2), (''priceRange'', 1), (''image'', 1)]"

definition evaluateProductSchema :: "(string \<times> jsval) list \<Rightarrow> rat" where
  "evaluateProductSchema dat =
     points dat
       [(''name'', 4), (''description'', 3), (''image'', 3), (''offers'', 4), (''brand'', 2),
        (''sku'', 2), (''aggregateRating'', 2)]"

definition objectKeys :: "(string \<times> jsval) list \<Rightarrow> string list" where
  \<comment> \<open>\<open>Object.keys(data)\<close>\<close>
  "objectKeys dat = remdups (map fst dat)"

definition evaluateGenericSchema :: "(string \<times> jsval) list \<Rightarrow> rat" where
  "evaluateGenericSchema dat =
     min 10 (of_nat (length (objectKeys dat)))
       + points dat [(''name'', 2), (''description'', 2), (''url'', 1), (''image'', 1)]"

definition schemaCompleteness :: "SchemaMarkup \<Rightarrow> rat" where
  \<comment> \<open>the \<open>switch (schema.type)\<close> of evaluateSchemaCompleteness\<close>
  "schemaCompleteness schema =
     (if s_type schema = ''Article'' \<or> s_type schema = ''BlogPosting''
        then evaluateArticleSchema (s_data schema)
      else if s_type schema = ''Organization'' then evaluateOrganizationSchema (s_data schema)
      else if s_type schema = ''LocalBusiness'' then evaluateLocalBusinessSchema (s_data schema)
      else if s_type schema = ''Product'' then evaluateProductSchema (s_data schema)
      else evaluateGenericSchema (s_data schema))"

definition evaluateSchemaCompleteness :: "SchemaMarkup list \<Rightarrow> rat" where
  \<comment> \<open>called with at least one schema\<close>
  "evaluateSchemaCompleteness ss =
     (let completenessScore = foldl (\<lambda>sum schema. sum + schemaCompleteness schema) 0 ss
      in min 20 (completenessScore / of_nat (length ss)))"

definition calculateSchemaScore :: "SchemaMarkup list \<Rightarrow> rat" where
  "calculateSchemaScore ss =
     (let uniqueTypes = remdups (map s_type ss);
          base1 = 30 + min 30 (of_nat (length uniqueTypes) * 10);
          hasImportantSchema = list_ex (\<lambda>schema. s_type schema \<in> set IMPORTANT_SCHEMA_TYPES) ss;
          base2 = (if hasImportantSchema then base1 + 20 else base1);
          base3 = base2 + evaluateSchemaCompleteness ss
      in min 100 base3)"

definition isArticleContent :: "string \<Rightarrow> Heading list \<Rightarrow> bool" where
  "isArticleContent c hs =
     (let hasIndicators =
            list_ex (\<lambda>indicator. strIncludes c indicator)
              [''published'', ''author'', ''article'', ''blog'', ''post'', ''written by'',
               ''published on'', ''updated''];
          hasGoodStructure = (length hs \<ge> 3);
          hasGoodLength = (countWords c \<ge> 300)
      in hasIndicators \<and> hasGoodStructure \<and> hasGoodLength)"

definition hasOrganizationInfo :: "ScrapedData \<Rightarrow> bool" where
  "hasOrganizationInfo d =
     (let c = toLowerCase (content d)
      in list_ex (\<lambda>indicator. strIncludes c indicator)
           [''company'', ''corporation'', ''organization'', ''business'', ''founded'',
            ''headquarters'', ''contact us'', ''about us''])"

definition hasBreadcrumbs :: "ScrapedData \<Rightarrow> bool" where
  "hasBreadcrumbs d =
     (let c = toLowerCase (content d)
      in list_ex (\<lambda>indicator. strIncludes c indicator)
           [''home >'', ''home /'', ''breadcrumb'', ''navigation'']
         \<or> list_ex (\<lambda>link. strIncludes (l_text link) ''>'' \<or> strIncludes (l_text link) ''/'')
              (links d))"

definition isHowToContent :: "JSRuntime \<Rightarrow> string \<Rightarrow> Heading list \<Rightarrow> bool" where
  "isHowToContent rt c hs =
     (let hasIndicators =
            list_ex (\<lambda>indicator. strIncludes (toLowerCase c) indicator)
              [''how to'', ''step'', ''steps'', ''tutorial'', ''guide'', ''instructions'',
               ''method'', ''process''];
          hasStepHeadings = list_ex (\<lambda>h. regexTest rt StepHeading (h_text h)) hs
      in hasIndicators \<and> hasStepHeadings)"

definition isLocalBusiness :: "string \<Rightarrow> bool" where
  "isLocalBusiness c =
     list_ex (\<lambda>indicator. strIncludes (toLowerCase c) indicator)
       [''address'', ''phone'', ''hours'', ''location'', ''visit us'', ''directions'', ''map'',
        ''contact'', ''call us'']"

definition findMissingSchemas :: "JSRuntime \<Rightarrow> SchemaMarkup list \<Rightarrow> ScrapedData \<Rightarrow> string list" where
  "findMissingSchemas rt existingSchemas d =
     (let existingTypes = set (map s_type existingSchemas);
          c = toLowerCase (content d)
      in (if ''Article'' \<notin> existingTypes \<and> ''BlogPosting'' \<notin> existingTypes
             \<and> isArticleContent c (headings d) then [''Article''] else [])
       @ (if ''Organization'' \<notin> existingTypes \<and> hasOrganizationInfo d
          then [''Organization''] else [])
       @ (if ''WebSite'' \<notin> existingTypes then [''WebSite''] else [])
       @ (if ''BreadcrumbList'' \<notin> existingTypes \<and> hasBreadcrumbs d
          then [''BreadcrumbList''] else [])
       @ (if ''HowTo'' \<notin> existingTypes \<and> isHowToContent rt c (headings d)
          then [''HowTo''] else [])
       @ (if ''LocalBusiness'' \<notin> existingTypes \<and> isLocalBusiness c
          then [''LocalBusiness''] else []))"

definition missingOf :: "(string \<times> jsval) list \<Rightarrow> string list \<Rightarrow> string list" where
  \<comment> \<open>a run of statements \<open>if (!data.p) missing.push(p)\<close>\<close>
  "missingOf dat props = filter (\<lambda>p. \<not> has dat p) props"

definition findMissingProperties :: "SchemaMarkup \<Rightarrow> string list" where
  "findMissingProperties schema =
     (if s_type schema = ''Article'' \<or> s_type schema = ''BlogPosting''
        then missingOf (s_data schema) [''headline'', ''author'', ''datePublished'', ''image'']
      else if s_type schema = ''Organization''
        then missingOf (s_data schema) [''name'', ''url'', ''logo'']
      else if s_type schema = ''LocalBusiness''
        then missingOf (s_data schema) [''address'', ''telephone'', ''openingHours'']
      else [])"

definition checkSchemaCompleteness :: "SchemaMarkup list \<Rightarrow> AnalyzerIssue list" where
  "checkSchemaCompleteness ss =
     concat (map (\<lambda>schema.
                    let missingProps = findMissingProperties schema
                    in if length missingProps > 0 then
                         [mkIssue LOW (''Incomplete '' @ s_type schema @ '' Schema'')
                            (''Missing recommended properties: '' @ joinWith '', '' missingProps)
                            ''Reduced schema effectiveness'']
                       else [])
               ss)"

definition SchemaMarkupAnalyzer_analyze :: "JSRuntime \<Rightarrow> Analyzer" where
  "SchemaMarkupAnalyzer_analyze rt d quickMode =
     (if length (schemas d) = 0 then
        Inr \<lparr> score = 0,
              issues =
                [mkIssue CRITICAL ''No Schema Markup Found''
                   ''No structured data markup detected on the page''
                   ''Reduced visibility in search results and AI platforms''],
              recommendations =
                [mkRecommendation 1 ''Implement Basic Schema Markup''
                   ''Add appropriate schema types based on content type'' 30 45] \<rparr>
      else
        let validSchemas = filter isValid (schemas d);
            invalidSchemas = filter (\<lambda>schema. \<not> isValid schema) (schemas d);
            (score1, iss1) =
              (if length validSchemas = 0 then
                 (10,
                  [mkIssue HIGH ''Invalid Schema Markup''
                     ''All schema markup contains errors and may not be recognized''
                     ''Schema benefits not realized due to validation errors''])
               else (calculateSchemaScore validSchemas, []));
            (iss2, recs2) =
              (if length invalidSchemas > 0 then
                 (iss1 @ [mkIssue MEDIUM (showNat (length invalidSchemas) @ '' Invalid Schema(s)'')
                            ''Some schema markup contains validation errors''
                            ''Partial loss of structured data benefits''],
                  [mkRecommendation 2 ''Fix Schema Validation Errors''
                     ''Correct errors in existing schema markup'' 15 20])
               else (iss1, []));
            missingSchemas = findMissingSchemas rt validSchemas d;
            recs3 =
              (if length missingSchemas > 0 then
                 recs2 @ [mkRecommendation 1 ''Add Missing Schema Types''
                            (''Consider adding: '' @ joinWith '', '' missingSchemas) 20 30]
               else recs2);
            iss3 = (if \<not> quickMode then iss2 @ checkSchemaCompleteness validSchemas else iss2)
        in Inr \<lparr> score = min 100 score1, issues = iss3, recommendations = recs3 \<rparr>)"

section \<open>The registered analyzers\<close>

fun registeredAnalyzers :: "JSRuntime \<Rightarrow> AnalyzerRegistry" where
  \<comment> \<open>the map built by the constructor of the orchestrator\<close>
  "registeredAnalyzers rt FAQ_SCHEMA = Some (FAQSchemaAnalyzer_analyze rt)"
| "registeredAnalyzers rt SCHEMA_MARKUP = Some (SchemaMarkupAnalyzer_analyze rt)"
| "registeredAnalyzers rt CONTENT_STRUCTURE = Some (ContentStructureAnalyzer_analyze rt)"
| "registeredAnalyzers rt FEATURED_SNIPPETS = Some FeaturedSnippetsAnalyzer_analyze"
| "registeredAnalyzers rt ENTITY_OPTIMIZATION = Some (EntityOptimizationAnalyzer_analyze rt)"
| "registeredAnalyzers rt META_TAGS = Some (MetaTagsAnalyzer_analyze rt)"
| "registeredAnalyzers rt SEMANTIC_HTML = Some SemanticHTMLAnalyzer_analyze"
| "registeredAnalyzers rt VOICE_SEARCH = Some VoiceSearchAnalyzer_analyze"
| "registeredAnalyzers rt KNOWLEDGE_GRAPH = Some KnowledgeGraphAnalyzer_analyze"
| "registeredAnalyzers rt TECHNICAL_SEO = Some (TechnicalSEOAnalyzer_analyze rt)"

section \<open>Overall score (shared helpers and constants)\<close>

fun categoryWeight :: "AEOCategory \<Rightarrow> rat" where
  \<comment> \<open>\<open>AEO_CATEGORY_CONFIG[c].weight\<close>\<close>
  "categoryWeight FAQ_SCHEMA = 15"
| "categoryWeight SCHEMA_MARKUP = 20"
| "categoryWeight CONTENT_STRUCTURE = 15"
| "categoryWeight FEATURED_SNIPPETS = 12"
| "categoryWeight ENTITY_OPTIMIZATION = 10"
| "categoryWeight META_TAGS = 8"
| "categoryWeight SEMANTIC_HTML = 8"
| "categoryWeight VOICE_SEARCH = 5"
| "categoryWeight KNOWLEDGE_GRAPH = 4"
| "categoryWeight TECHNICAL_SEO = 3"

definition DEFAULT_CATEGORY_WEIGHTS :: "(string \<times> rat) list" where
  \<comment> \<open>\<open>Object.fromEntries(Object.entries(AEO_CATEGORY_CONFIG).map(([key, config]) =>
     [key, config.weight]))\<close>: the keys are the enum's string values\<close>
  "DEFAULT_CATEGORY_WEIGHTS = map (\<lambda>c. (categoryValue c, categoryWeight c)) allCategories"

definition categoryScoreEntries :: "CategoryScores \<Rightarrow> (string \<times> rat) list" where
  \<comment> \<open>\<open>Object.entries(categoryScores)\<close>: the keys are the property names of
     \<open>interface CategoryScores\<close>\<close>
  "categoryScoreEntries cs =
     [(''faqSchema'', faqSchema cs), (''schemaMarkup'', schemaMarkup cs),
      (''contentStructure'', contentStructure cs), (''featuredSnippets'', featuredSnippets cs),
      (''entityOptimization'', entityOptimization cs), (''metaTags'', metaTags_score cs),
      (''semanticHtml'', semanticHtml cs), (''voiceSearch'', voiceSearch cs),
      (''knowledgeGraph'', knowledgeGraph cs), (''technicalSeo'', technicalSeo cs)]"

definition weightOrOne :: "string \<Rightarrow> rat" where
  \<comment> \<open>\<open>DEFAULT_CATEGORY_WEIGHTS[category as AEOCategory] || 1\<close>\<close>
  "weightOrOne category =
     (case map_of DEFAULT_CATEGORY_WEIGHTS category of
        None \<Rightarrow> 1
      | Some w \<Rightarrow> if w = 0 then 1 else w)"

definition calculateOverallScore :: "CategoryScores \<Rightarrow> int" where
  "calculateOverallScore cs =
     (let scores = categoryScoreEntries cs;
          weightedSum = foldl (\<lambda>sum (category, sc). sum + sc * weightOrOne category) 0 scores;
          totalWeight = foldl (\<lambda>sum weight. sum + weight) 0 (map snd DEFAULT_CATEGORY_WEIGHTS)
      in jsRound (weightedSum / totalWeight))"

definition getSeverityFromScore :: "rat \<Rightarrow> Severity" where
  "getSeverityFromScore sc =
     (if sc \<ge> 80 then LOW else if sc \<ge> 60 then MEDIUM else if sc \<ge> 40 then HIGH else CRITICAL)"

section \<open>Analysis orchestrator (AEOAnalyzer)\<close>

datatype LogMeta =
    MetaNone | MetaUrl string | MetaError JSError | MetaCompleted string int nat

datatype LogEntry = LogInfo string LogMeta | LogWarn string LogMeta | LogError string LogMeta
  \<comment> \<open>one call of \<open>logger.info\<close>, \<open>logger.warn\<close> or \<open>logger.error\<close> with its arguments\<close>

fun getCategoryScoreKey :: "AEOCategory \<Rightarrow> string" where
  "getCategoryScoreKey FAQ_SCHEMA = ''faqSchema''"
| "getCategoryScoreKey SCHEMA_MARKUP = ''schemaMarkup''"
| "getCategoryScoreKey CONTENT_STRUCTURE = ''contentStructure''"
| "getCategoryScoreKey FEATURED_SNIPPETS = ''featuredSnippets''"
| "getCategoryScoreKey ENTITY_OPTIMIZATION = ''entityOptimization''"
| "getCategoryScoreKey META_TAGS = ''metaTags''"
| "getCategoryScoreKey SEMANTIC_HTML = ''semanticHtml''"
| "getCategoryScoreKey VOICE_SEARCH = ''voiceSearch''"
| "getCategoryScoreKey KNOWLEDGE_GRAPH = ''knowledgeGraph''"
| "getCategoryScoreKey TECHNICAL_SEO = ''technicalSeo''"

definition orZero :: "rat option \<Rightarrow> rat" where
  \<comment> \<open>\<open>v ?? 0\<close>\<close>
  "orZero v = (case v of None \<Rightarrow> 0 | Some x \<Rightarrow> x)"

definition fillMissingScores :: "(string \<rightharpoonup> rat) \<Rightarrow> CategoryScores" where
  "fillMissingScores scores =
     \<lparr> faqSchema = orZero (scores ''faqSchema''),
       schemaMarkup = orZero (scores ''schemaMarkup''),
       contentStructure = orZero (scores ''contentStructure''),
       featuredSnippets = orZero (scores ''featuredSnippets''),
       entityOptimization = orZero (scores ''entityOptimization''),
       metaTags_score = orZero (scores ''metaTags''),
       semanticHtml = orZero (scores ''semanticHtml''),
       voiceSearch = orZero (scores ''voiceSearch''),
       knowledgeGraph = orZero (scores ''knowledgeGraph''),
       technicalSeo = orZero (scores ''technicalSeo'') \<rparr>"

fun getSeverityPriority :: "Severity \<Rightarrow> int" where
  "getSeverityPriority CRITICAL = 1"
| "getSeverityPriority HIGH = 2"
| "getSeverityPriority MEDIUM = 3"
| "getSeverityPriority LOW = 4"

definition tagIssue :: "AEOCategory \<Rightarrow> AnalyzerIssue \<Rightarrow> CategoryIssue" where
  \<comment> \<open>\<open>{ ...issue, category }\<close>\<close>
  "tagIssue category issue =
     \<lparr> severity = severity issue, i_title = i_title issue, i_description = i_description issue,
       impact = impact issue, fixable = fixable issue, ci_category = category \<rparr>"

definition tagRecommendation ::
  "AEOCategory \<Rightarrow> AnalyzerRecommendation \<Rightarrow> CategoryRecommendation" where
  \<comment> \<open>\<open>{ ...rec, category }\<close>\<close>
  "tagRecommendation category r =
     \<lparr> priority = priority r, r_title = r_title r, r_description = r_description r,
       estimatedImpact = estimatedImpact r, implementationTime = implementationTime r,
       cr_category = category \<rparr>"

record LoopState =
  ls_scores :: "string \<rightharpoonup> rat"
  ls_issues :: "CategoryIssue list"
  ls_recommendations :: "CategoryRecommendation list"
  ls_log :: "LogEntry list"

definition quickFlag :: "AnalysisOptions \<Rightarrow> bool" where
  \<comment> \<open>\<open>options.quick\<close> as the analyzer receives it: the parameter defaults to false\<close>
  "quickFlag options = (case quick options of None \<Rightarrow> False | Some q \<Rightarrow> q)"

definition wantsRecommendations :: "AnalysisOptions \<Rightarrow> bool" where
  \<comment> \<open>the truthiness of \<open>options.includeRecommendations\<close>\<close>
  "wantsRecommendations options = (case includeRecommendations options of None \<Rightarrow> False | Some b \<Rightarrow> b)"

definition analyzeCategory ::
  "AnalyzerRegistry \<Rightarrow> ScrapedData \<Rightarrow> AnalysisOptions \<Rightarrow> AEOCategory \<Rightarrow> LoopState \<Rightarrow> LoopState" where
  \<comment> \<open>one iteration of the loop over \<open>categoriesToAnalyze\<close>, with its try and catch\<close>
  "analyzeCategory analyzers scrapedData options category st =
     (case analyzers category of
        None \<Rightarrow>
          st\<lparr>ls_log := ls_log st
               @ [LogWarn (''No analyzer found for category: '' @ categoryValue category) MetaNone]\<rparr>
      | Some analyzer \<Rightarrow>
          (case analyzer scrapedData (quickFlag options) of
             Inl error \<Rightarrow>
               st\<lparr>ls_scores := (ls_scores st)(getCategoryScoreKey category \<mapsto> 0),
                  ls_log := ls_log st
                    @ [LogError (''Analysis failed for category '' @ categoryValue category @ '':'')
                         (MetaError error)]\<rparr>
           | Inr result \<Rightarrow>
               st\<lparr>ls_scores := (ls_scores st)(getCategoryScoreKey category \<mapsto> score result),
                  ls_issues := ls_issues st @ map (tagIssue category) (issues result),
                  ls_recommendations :=
                    (if wantsRecommendations options
                     then ls_recommendations st
                            @ map (tagRecommendation category) (recommendations result)
                     else ls_recommendations st)\<rparr>))"

abbreviation steps ::
  "AnalyzerRegistry \<Rightarrow> ScrapedData \<Rightarrow> AnalysisOptions \<Rightarrow> LoopState \<Rightarrow> AEOCategory list
     \<Rightarrow> LoopState" where
  \<comment> \<open>the iterations of the loop over a list of categories, from a given state\<close>
  "steps analyzers scrapedData options \<equiv>
     foldl (\<lambda>st category. analyzeCategory analyzers scrapedData options category st)"

definition categoriesToAnalyze :: "AnalysisOptions \<Rightarrow> AEOCategory list" where
  \<comment> \<open>\<open>options.categories || Object.values(AEOCategory)\<close>\<close>
  "categoriesToAnalyze options = (case categories options of None \<Rightarrow> allCategories | Some cs \<Rightarrow> cs)"

definition analyzeCategories ::
  "AnalyzerRegistry \<Rightarrow> ScrapedData \<Rightarrow> AnalysisOptions \<Rightarrow> LogEntry list \<Rightarrow> LoopState" where
  \<comment> \<open>the state after the loop, started from empty scores, issues and recommendations\<close>
  "analyzeCategories analyzers scrapedData options lg =
     steps analyzers scrapedData options
       \<lparr> ls_scores = Map.empty, ls_issues = [], ls_recommendations = [],
         ls_log = lg @ [LogInfo ''Starting AEO analysis:'' (MetaUrl (url scrapedData))] \<rparr>
       (categoriesToAnalyze options)"

definition analyzeWebpage ::
  "AnalyzerRegistry \<Rightarrow> ScrapedData \<Rightarrow> AnalysisOptions \<Rightarrow> LogEntry list
     \<Rightarrow> (JSError + AnalysisResult) \<times> LogEntry list" where
  \<comment> \<open>takes the log written so far and returns the outcome with the extended log.
     No statement of the outer try block can throw outside the inner try, so the
     outer catch, the only source of a rejected promise, is never entered.\<close>
  "analyzeWebpage analyzers scrapedData options lg =
     (let st = analyzeCategories analyzers scrapedData options lg;
          fullCategoryScores = fillMissingScores (ls_scores st);
          overall = calculateOverallScore fullCategoryScores;
          sortedIssues = sort_key (\<lambda>a. getSeverityPriority (severity a)) (ls_issues st);
          sortedRecommendations = sort_key priority (ls_recommendations st);
          result = \<lparr> overallScore = overall, categoryScores = fullCategoryScores,
                     res_issues = sortedIssues, res_recommendations = sortedRecommendations,
                     status = COMPLETED \<rparr>
      in (Inr result,
          ls_log st @ [LogInfo ''AEO analysis completed:''
                         (MetaCompleted (url scrapedData) overall (length sortedIssues))]))"

record CategorySummary =
  cs_score :: rat
  cs_severity :: Severity
  cs_issues :: "CategoryIssue list"
  cs_recommendations :: "CategoryRecommendation list"

definition getCategorySummary ::
  "AnalyzerRegistry \<Rightarrow> ScrapedData \<Rightarrow> AEOCategory \<Rightarrow> JSError + CategorySummary" where
  "getCategorySummary analyzers scrapedData category =
     (case analyzers category of
        None \<Rightarrow> Inl (Error (''No analyzer found for category: '' @ categoryValue category))
      | Some analyzer \<Rightarrow>
          (case analyzer scrapedData False of
             Inl error \<Rightarrow> Inl error
           | Inr result \<Rightarrow>
               Inr \<lparr> cs_score = score result,
                     cs_severity = getSeverityFromScore (score result),
                     cs_issues = map (tagIssue category) (issues result),
                     cs_recommendations = map (tagRecommendation category) (recommendations result) \<rparr>))"

section \<open>Validation schema of scraped data (shared constants)\<close>

definition urlSchema :: "JSRuntime \<Rightarrow> string \<Rightarrow> bool" where
  \<comment> \<open>\<open>z.string().url().min(1)\<close>\<close>
  "urlSchema rt u = (urlParses rt u \<and> length u \<ge> 1)"

definition scrapedDataSchema :: "JSRuntime \<Rightarrow> ScrapedData \<Rightarrow> bool" where
  \<comment> \<open>whether \<open>scrapedDataSchema\<close> accepts the document\<close>
  "scrapedDataSchema rt d =
     (urlSchema rt (url d)
      \<and> length (title d) \<ge> 1 \<and> length (title d) \<le> 200
      \<and> length (metaDescription d) \<le> 500
      \<and> list_all (\<lambda>h. level h \<ge> 1 \<and> level h \<le> 6 \<and> length (h_text h) \<ge> 1) (headings d)
      \<and> length (content d) \<ge> 1
      \<and> list_all (\<lambda>i. urlParses rt (img_src i)) (images d)
      \<and> loadTime (performance d) \<ge> 0 \<and> pageSize (performance d) \<ge> 0)"

section \<open>Notions used in the statements\<close>

fun scoreOf :: "CategoryScores \<Rightarrow> AEOCategory \<Rightarrow> rat" where
  \<comment> \<open>the entry of a category in the score record, \<open>scores[getCategoryScoreKey(c)]\<close>\<close>
  "scoreOf cs FAQ_SCHEMA = faqSchema cs"
| "scoreOf cs SCHEMA_MARKUP = schemaMarkup cs"
| "scoreOf cs CONTENT_STRUCTURE = contentStructure cs"
| "scoreOf cs FEATURED_SNIPPETS = featuredSnippets cs"
| "scoreOf cs ENTITY_OPTIMIZATION = entityOptimization cs"
| "scoreOf cs META_TAGS = metaTags_score cs"
| "scoreOf cs SEMANTIC_HTML = semanticHtml cs"
| "scoreOf cs VOICE_SEARCH = voiceSearch cs"
| "scoreOf cs KNOWLEDGE_GRAPH = knowledgeGraph cs"
| "scoreOf cs TECHNICAL_SEO = technicalSeo cs"

definition weightedMean :: "CategoryScores \<Rightarrow> int" where
  \<comment> \<open>the overall score as the specification words it: the rounded mean of the ten
     category scores, each weighted by the weight of its category\<close>
  "weightedMean cs =
     jsRound ((\<Sum>c\<leftarrow>allCategories. categoryWeight c * scoreOf cs c)
              / (\<Sum>c\<leftarrow>allCategories. categoryWeight c))"

definition allScores :: "rat \<Rightarrow> CategoryScores" where
  \<comment> \<open>the score record with the same value in every category\<close>
  "allScores v =
     \<lparr> faqSchema = v, schemaMarkup = v, contentStructure = v, featuredSnippets = v,
       entityOptimization = v, metaTags_score = v, semanticHtml = v, voiceSearch = v,
       knowledgeGraph = v, technicalSeo = v \<rparr>"

definition skippedLevel :: "Heading list \<Rightarrow> bool" where
  \<comment> \<open>some heading lies more than one level below the heading just before it\<close>
  "skippedLevel hs = (\<exists>i. Suc i < length hs \<and> level (hs ! Suc i) > level (hs ! i) + 1)"

definition H :: "int \<Rightarrow> Heading" where
  \<comment> \<open>a heading of the given level, for the examples\<close>
  "H n = \<lparr> level = n, h_text = ''Section'', h_id = None \<rparr>"

definition analyzerOutcome ::
  "AnalyzerRegistry \<Rightarrow> ScrapedData \<Rightarrow> AnalysisOptions \<Rightarrow> AEOCategory
     \<Rightarrow> (JSError + AnalyzerResult) option" where
  \<comment> \<open>what the analyzer registered for a category returns or throws in a run, if one is
     registered\<close>
  "analyzerOutcome an d opts c =
     (case an c of None \<Rightarrow> None | Some a \<Rightarrow> Some (a d (quickFlag opts)))"

definition outcomeScore :: "(JSError + AnalyzerResult) option \<Rightarrow> rat option" where
  \<comment> \<open>the score the loop stores for that outcome\<close>
  "outcomeScore out =
     (case out of None \<Rightarrow> None | Some (Inl e) \<Rightarrow> Some 0 | Some (Inr r) \<Rightarrow> Some (score r))"

definition outcomeIssues :: "AEOCategory \<Rightarrow> (JSError + AnalyzerResult) option \<Rightarrow> CategoryIssue list" where
  \<comment> \<open>the issues the loop collects for that outcome\<close>
  "outcomeIssues c out = (case out of Some (Inr r) \<Rightarrow> map (tagIssue c) (issues r) | _ \<Rightarrow> [])"

definition outcomeRecommendations ::
  "AEOCategory \<Rightarrow> (JSError + AnalyzerResult) option \<Rightarrow> CategoryRecommendation list" where
  \<comment> \<open>the recommendations the loop collects for that outcome, when they are requested\<close>
  "outcomeRecommendations c out =
     (case out of Some (Inr r) \<Rightarrow> map (tagRecommendation c) (recommendations r) | _ \<Rightarrow> [])"

definition bySeverity :: "Severity \<Rightarrow> CategoryIssue list \<Rightarrow> CategoryIssue list" where
  \<comment> \<open>the issues of one severity, in their order in the list\<close>
  "bySeverity s xs = filter (\<lambda>i. severity i = s) xs"

definition inRange :: "rat \<Rightarrow> bool" where
  "inRange v = (0 \<le> v \<and> v \<le> 100)"

definition sampleRuntime :: JSRuntime where
  \<comment> \<open>a runtime for the examples; the theorems hold for every runtime\<close>
  "sampleRuntime =
     \<lparr> numberToString = (\<lambda>n. showInt \<lfloor>n\<rfloor>),
       stringToNumber = (\<lambda>s. NaN),
       toFixed1 = (\<lambda>n. showInt \<lfloor>n\<rfloor> @ ''.'' @ showInt (\<lfloor>n * 10\<rfloor> mod 10)),
       urlParses = (\<lambda>s. startsWith s ''http''),
       regexTest = (\<lambda>p s. False),
       regexMatch = (\<lambda>p s. []) \<rparr>"

definition testData :: ScrapedData where
  \<comment> \<open>the minimal document of \<open>getHealthStatus\<close>\<close>
  "testData =
     \<lparr> url = ''https://example.com'', title = ''Test'', metaDescription = ''Test description'',
       headings = [], content = ''Test content'', schemas = [], metaTags = [],
       openGraphTags = [], images = [], links = [],
       performance = \<lparr> loadTime = 0, pageSize = 0, coreWebVitals = None \<rparr> \<rparr>"

definition defaultOptions :: AnalysisOptions where
  \<comment> \<open>the default \<open>options = {}\<close>\<close>
  "defaultOptions = \<lparr> categories = None, quick = None, includeRecommendations = None \<rparr>"

definition throwingAnalyzer :: Analyzer where
  \<comment> \<open>an analyzer whose \<open>analyze\<close> throws\<close>
  "throwingAnalyzer d quickMode = Inl (Error ''forced failure'')"

definition faultyRegistry :: AnalyzerRegistry where
  \<comment> \<open>the registered analyzers, with a forced failure in place of the FAQ analyzer\<close>
  "faultyRegistry = (registeredAnalyzers sampleRuntime)(FAQ_SCHEMA \<mapsto> throwingAnalyzer)"

definition withoutVoiceSearch :: AnalyzerRegistry where
  \<comment> \<open>a registry in which no analyzer is registered for voice search\<close>
  "withoutVoiceSearch = (registeredAnalyzers sampleRuntime)(VOICE_SEARCH := None)"

definition withRecommendations :: AnalysisOptions where
  "withRecommendations =
     \<lparr> categories = None, quick = None, includeRecommendations = Some True \<rparr>"

definition twoCategories :: AnalysisOptions where
  "twoCategories =
     \<lparr> categories = Some [FAQ_SCHEMA, META_TAGS], quick = None, includeRecommendations = None \<rparr>"

definition voiceSearchOnly :: AnalysisOptions where
  "voiceSearchOnly =
     \<lparr> categories = Some [VOICE_SEARCH], quick = None, includeRecommendations = None \<rparr>"

definition brokenTypeDoc :: ScrapedData where
  \<comment> \<open>a document with one structured-data block whose \<open>@type\<close> is a number\<close>
  "brokenTypeDoc =
     testData\<lparr>schemas :=
       [\<lparr> s_type = ''Unknown'', s_data = [(''@type'', JNum 5)], isValid = True,
           s_errors = None \<rparr>]\<rparr>"

definition noUrlDoc :: ScrapedData where
  \<comment> \<open>a document with an empty url\<close>
  "noUrlDoc = testData\<lparr>url := []\<rparr>"

definition faqEntry :: "string \<Rightarrow> string \<Rightarrow> jsval" where
  \<comment> \<open>a \<open>Question\<close> entry of a FAQPage block, as schema.org lays it out\<close>
  "faqEntry q a =
     JObj [(''@type'', JStr ''Question''), (''name'', JStr q),
           (''acceptedAnswer'', JObj [(''@type'', JStr ''Answer''), (''text'', JStr a)])]"

definition wellFormedQuestion :: "string \<Rightarrow> bool" where
  \<comment> \<open>the question ends in a question mark and contains an interrogative word\<close>
  "wellFormedQuestion q =
     (endsWith q ''?'' \<and> list_ex (\<lambda>word. strIncludes (toLowerCase q) word) questionWords)"

definition wellFormedAnswer :: "string \<Rightarrow> bool" where
  \<comment> \<open>the answer has 20 to 80 words, counted as the analyzer counts them: the pieces
     between runs of white space\<close>
  "wellFormedAnswer a =
     (20 \<le> length (splitRuns isWhiteSpace a) \<and> length (splitRuns isWhiteSpace a) \<le> 80)"

definition sampleAnswer :: string where
  "sampleAnswer =
     ''Answer engine optimization is the practice of structuring the content of a page so that search engines and voice assistants can extract a direct answer.''"

definition sampleQuestions :: "(string \<times> string) list" where
  "sampleQuestions =
     [(''What is answer engine optimization?'', sampleAnswer),
      (''How does structured data help search engines?'', sampleAnswer),
      (''Why should every page have one main heading?'', sampleAnswer),
      (''When is the best time to update the FAQ page?'', sampleAnswer),
      (''Where can I find the list of supported schema types?'', sampleAnswer),
      (''Who is responsible for keeping the answers current?'', sampleAnswer)]"

definition faqPage :: SchemaMarkup where
  "faqPage =
     \<lparr> s_type = ''FAQPage'',
       s_data = [(''@context'', JStr ''https://schema.org''), (''@type'', JStr ''FAQPage''),
                 (''mainEntity'', JArr (map (\<lambda>(q, a). faqEntry q a) sampleQuestions))],
       isValid = True, s_errors = None \<rparr>"

definition faqDoc :: ScrapedData where
  "faqDoc = testData\<lparr>schemas := [faqPage]\<rparr>"

definition paddedAnswer :: string where
  \<comment> \<open>an answer of 80 words, followed by one space\<close>
  "paddedAnswer = concat (replicate 80 ''word '')"

definition shortQuestions :: "(string \<times> string) list" where
  "shortQuestions = replicate 6 (''Why so?'', paddedAnswer)"

definition paddedFaqDoc :: ScrapedData where
  "paddedFaqDoc =
     testData\<lparr>schemas :=
       [\<lparr> s_type = ''FAQPage'',
           s_data = [(''@type'', JStr ''FAQPage''),
                     (''mainEntity'', JArr (map (\<lambda>(q, a). faqEntry q a) shortQuestions))],
           isValid = True, s_errors = None \<rparr>]\<rparr>"

definition duplicateWordsIssue :: AnalyzerIssue where
  "duplicateWordsIssue =
     mkIssue LOW ''Duplicate Words in Title'' ''Title contains repeated words''
       ''Reduces title effectiveness''"

definition noCallToActionIssue :: AnalyzerIssue where
  "noCallToActionIssue =
     mkIssue LOW ''No Call-to-Action in Description''
       ''Meta description lacks compelling call-to-action'' ''May reduce click-through rates''"

definition genericDescriptionIssue :: AnalyzerIssue where
  "genericDescriptionIssue =
     mkIssue LOW ''Generic Meta Description''
       ''Meta description appears to be generic or duplicated''
       ''Reduces uniqueness and effectiveness''"

definition repeatsWord :: "string \<Rightarrow> bool" where
  \<comment> \<open>the duplicate-word check of the title: more words than distinct words\<close>
  "repeatsWord t =
     (length (splitRuns isWhiteSpace (toLowerCase t))
        > length (remdups (splitRuns isWhiteSpace (toLowerCase t))))"

definition missingTitleIssue :: AnalyzerIssue where
  "missingTitleIssue =
     mkIssue CRITICAL ''Missing Title Tag'' ''No title tag found on the page''
       ''Severely impacts search engine rankings and click-through rates''"

definition missingDescriptionIssue :: AnalyzerIssue where
  "missingDescriptionIssue =
     mkIssue HIGH ''Missing Meta Description'' ''No meta description found''
       ''Search engines will generate description, reducing click-through rates''"

definition blank55 :: string where
  \<comment> \<open>a title of 55 spaces\<close>
  "blank55 = replicate 55 CHR '' ''"

definition blank155 :: string where
  \<comment> \<open>a meta description of 155 spaces, as a \<open>content\<close> attribute can hold it\<close>
  "blank155 = replicate 155 CHR '' ''"

definition title55 :: string where
  "title55 = ''Answer Engine Optimization: A Practical Guide for Teams''"

definition description155 :: string where
  "description155 =
     ''Learn how answer engine optimization helps your pages earn featured snippets and voice answers, with simple steps, examples and checklists for every group.''"

section \<open>Overall score\<close>

lemma weightOrOne_keys:
  "weightOrOne ''faqSchema'' = 1" "weightOrOne ''schemaMarkup'' = 1"
  "weightOrOne ''contentStructure'' = 1" "weightOrOne ''featuredSnippets'' = 1"
  "weightOrOne ''entityOptimization'' = 1" "weightOrOne ''metaTags'' = 1"
  "weightOrOne ''semanticHtml'' = 1" "weightOrOne ''voiceSearch'' = 1"
  "weightOrOne ''knowledgeGraph'' = 1" "weightOrOne ''technicalSeo'' = 1"
  by (simp_all add: weightOrOne_def DEFAULT_CATEGORY_WEIGHTS_def allCategories_def)

lemma totalWeight_100:
  "foldl (\<lambda>sum weight. sum + weight) 0 (map snd DEFAULT_CATEGORY_WEIGHTS) = (100::rat)"
  by (simp add: DEFAULT_CATEGORY_WEIGHTS_def allCategories_def)

lemma calculateOverallScore_unweighted:
  "calculateOverallScore cs =
     jsRound ((faqSchema cs + schemaMarkup cs + contentStructure cs + featuredSnippets cs
               + entityOptimization cs + metaTags_score cs + semanticHtml cs + voiceSearch cs
               + knowledgeGraph cs + technicalSeo cs) / 100)"
  by (simp add: calculateOverallScore_def totalWeight_100 categoryScoreEntries_def weightOrOne_keys)

lemma jsRound_10 [simp]: "jsRound 10 = 10" and jsRound_100 [simp]: "jsRound 100 = 100"
  and jsRound_0 [simp]: "jsRound 0 = 0"
  unfolding jsRound_def by code_simp+

text \<open>
  Claim C1. The overall score is meant to be the weighted mean of the ten category
  scores. The code looks each weight up under the property name of the score record
  (\<open>faqSchema\<close>), while the weight table is keyed by the enum value (\<open>faq_schema\<close>): no
  lookup succeeds, every weight falls back to 1, and the sum of the ten scores is divided
  by the total weight 100. With every category score at 100 the code returns 10, where the
  weighted mean is 100.
\<close>

theorem calculateOverallScore_all_100:
  "calculateOverallScore (allScores 100) = 10 \<and> weightedMean (allScores 100) = 100"
  by (simp add: calculateOverallScore_unweighted weightedMean_def allScores_def allCategories_def)

section \<open>Heading hierarchy\<close>

lemma skippedLevel_short [simp]: "skippedLevel [] = False" "skippedLevel [h] = False"
  by (simp_all add: skippedLevel_def)

lemma skippedLevel_Cons2:
  "skippedLevel (p # c # rest) = (level c > level p + 1 \<or> skippedLevel (c # rest))"
proof -
  have "(\<exists>i. Suc i < length (p # c # rest)
            \<and> level ((p # c # rest) ! Suc i) > level ((p # c # rest) ! i) + 1)
      = (level c > level p + 1
         \<or> (\<exists>j. Suc j < length (c # rest) \<and> level ((c # rest) ! Suc j) > level ((c # rest) ! j) + 1))"
    (is "(\<exists>i. ?P i) = (?A \<or> (\<exists>j. ?Q j))")
  proof
    assume "\<exists>i. ?P i"
    then obtain i where i: "?P i" by blast
    show "?A \<or> (\<exists>j. ?Q j)"
    proof (cases i)
      case 0
      with i show ?thesis by simp
    next
      case (Suc j)
      with i have "?Q j" by simp
      then show ?thesis by blast
    qed
  next
    assume "?A \<or> (\<exists>j. ?Q j)"
    then show "\<exists>i. ?P i"
    proof
      assume ?A
      then have "?P 0" by simp
      then show ?thesis by blast
    next
      assume "\<exists>j. ?Q j"
      then obtain j where "?Q j" by blast
      then have "?P (Suc j)" by simp
      then show ?thesis by blast
    qed
  qed
  then show ?thesis by (simp only: skippedLevel_def)
qed

lemma headingHierarchy_valid:
  "fst (headingHierarchy hs st) = (fst st \<and> \<not> skippedLevel hs)"
proof (induction hs st rule: headingHierarchy.induct)
  case (1 previous current rest valid msgs)
  then show ?case
    by (cases "level current > level previous + 1") (simp_all add: skippedLevel_Cons2)
qed simp_all

lemma validateHeadingStructure_valid:
  "fst (validateHeadingStructure hs)
     = (hs \<noteq> [] \<and> length (filter (\<lambda>h. level h = 1) hs) = 1 \<and> \<not> skippedLevel hs)"
proof -
  define n where "n = length (filter (\<lambda>h. level h = 1) hs)"
  show ?thesis
    unfolding validateHeadingStructure_def Let_def n_def [symmetric]
    by (cases "n = 0"; cases "n > 1") (auto simp: headingHierarchy_valid)
qed

text \<open>
  Claim C4, as stated: the validator reports a heading sequence invalid exactly when it
  is empty, has more than one level-1 heading, or skips a level. The single heading H2
  meets none of the three conditions, and the validator reports it invalid: a sequence
  without any level-1 heading is rejected too (\<open>Missing H1 tag\<close>).
\<close>

theorem validateHeadingStructure_only_listed_counterexample:
  "fst (validateHeadingStructure [H 2]) = False
   \<and> \<not> ([H 2] = [] \<or> length (filter (\<lambda>h. level h = 1) [H 2]) > 1 \<or> skippedLevel [H 2])"
  by (simp add: validateHeadingStructure_def H_def)

text \<open>
  Claim C4, amended: the validator reports a heading sequence invalid exactly when it is
  empty, or the number of its level-1 headings is not one (none, or more than one), or
  some heading lies more than one level below the heading just before it. The sequence
  H1, H3 is invalid and the sequence H1, H2, H2, H3 is valid.
\<close>

theorem validateHeadingStructure_invalid_iff:
  "(fst (validateHeadingStructure hs) = False
      \<longleftrightarrow> (hs = [] \<or> length (filter (\<lambda>h. level h = 1) hs) \<noteq> 1 \<or> skippedLevel hs))
   \<and> fst (validateHeadingStructure [H 1, H 3]) = False
   \<and> fst (validateHeadingStructure [H 1, H 2, H 2, H 3]) = True"
  by (auto simp: validateHeadingStructure_valid skippedLevel_Cons2 H_def)

theorem validateHeadingStructure_invalid_iff_witness:
  "fst (validateHeadingStructure [H 1, H 3]) = False
   \<and> ([H 1, H 3] = [] \<or> length (filter (\<lambda>h. level h = 1) [H 1, H 3]) \<noteq> 1
        \<or> skippedLevel [H 1, H 3])"
  using validateHeadingStructure_invalid_iff [of "[H 1, H 3]"]
  by (simp add: skippedLevel_Cons2 H_def)


section \<open>The loop over the categories\<close>


lemma getCategoryScoreKey_inj: "getCategoryScoreKey c = getCategoryScoreKey c' \<longleftrightarrow> c = c'"
  by (cases c; cases c'; simp)

lemma scoreOf_fillMissingScores:
  "scoreOf (fillMissingScores m) c = orZero (m (getCategoryScoreKey c))"
  by (cases c) (simp_all add: fillMissingScores_def)

lemma step_scores:
  "ls_scores (analyzeCategory an d opts c st) =
     (case outcomeScore (analyzerOutcome an d opts c) of
        None \<Rightarrow> ls_scores st
      | Some v \<Rightarrow> (ls_scores st)(getCategoryScoreKey c \<mapsto> v))"
  by (simp add: analyzeCategory_def analyzerOutcome_def outcomeScore_def split: option.splits sum.splits)

lemma step_issues:
  "ls_issues (analyzeCategory an d opts c st) = ls_issues st @ outcomeIssues c (analyzerOutcome an d opts c)"
  by (simp add: analyzeCategory_def analyzerOutcome_def outcomeIssues_def split: option.splits sum.splits)

lemma step_recommendations:
  "ls_recommendations (analyzeCategory an d opts c st) =
     ls_recommendations st
       @ (if wantsRecommendations opts then outcomeRecommendations c (analyzerOutcome an d opts c) else [])"
  by (simp add: analyzeCategory_def analyzerOutcome_def outcomeRecommendations_def split: option.splits sum.splits)

lemma steps_scores:
  "ls_scores (steps an d opts st cs) (getCategoryScoreKey c) =
     (if c \<in> set cs then
        (case outcomeScore (analyzerOutcome an d opts c) of
           None \<Rightarrow> ls_scores st (getCategoryScoreKey c)
         | Some v \<Rightarrow> Some v)
      else ls_scores st (getCategoryScoreKey c))"
proof (induction cs arbitrary: st)
  case Nil
  then show ?case by simp
next
  case (Cons x cs)
  show ?case
    by (simp add: Cons.IH step_scores getCategoryScoreKey_inj split: option.splits)
qed

lemma steps_issues:
  "ls_issues (steps an d opts st cs) =
     ls_issues st @ concat (map (\<lambda>c. outcomeIssues c (analyzerOutcome an d opts c)) cs)"
  by (induction cs arbitrary: st) (simp_all add: step_issues)

lemma steps_recommendations:
  "ls_recommendations (steps an d opts st cs) =
     ls_recommendations st
       @ (if wantsRecommendations opts
          then concat (map (\<lambda>c. outcomeRecommendations c (analyzerOutcome an d opts c)) cs) else [])"
  by (induction cs arbitrary: st) (simp_all add: step_recommendations)

lemma analyzeWebpage_Inr:
  "fst (analyzeWebpage an d opts lg) =
     Inr \<lparr> overallScore = calculateOverallScore (fillMissingScores (ls_scores (analyzeCategories an d opts lg))),
           categoryScores = fillMissingScores (ls_scores (analyzeCategories an d opts lg)),
           res_issues = sort_key (\<lambda>a. getSeverityPriority (severity a)) (ls_issues (analyzeCategories an d opts lg)),
           res_recommendations = sort_key priority (ls_recommendations (analyzeCategories an d opts lg)),
           status = COMPLETED \<rparr>"
  by (simp add: analyzeWebpage_def Let_def)

lemma final_score:
  "scoreOf (fillMissingScores (ls_scores (analyzeCategories an d opts lg))) c =
     (if c \<in> set (categoriesToAnalyze opts)
      then orZero (outcomeScore (analyzerOutcome an d opts c)) else 0)"
  by (simp add: scoreOf_fillMissingScores analyzeCategories_def steps_scores orZero_def split: option.splits)

lemma final_issues:
  "ls_issues (analyzeCategories an d opts lg) =
     concat (map (\<lambda>c. outcomeIssues c (analyzerOutcome an d opts c)) (categoriesToAnalyze opts))"
  by (simp add: analyzeCategories_def steps_issues)

lemma final_recommendations:
  "ls_recommendations (analyzeCategories an d opts lg) =
     (if wantsRecommendations opts
      then concat (map (\<lambda>c. outcomeRecommendations c (analyzerOutcome an d opts c)) (categoriesToAnalyze opts))
      else [])"
  by (simp add: analyzeCategories_def steps_recommendations)


lemma outcomeIssues_category:
  "i \<in> set (outcomeIssues c out) \<Longrightarrow> ci_category i = c"
  by (auto simp: outcomeIssues_def tagIssue_def split: option.splits sum.splits)

lemma outcomeRecommendations_category:
  "x \<in> set (outcomeRecommendations c out) \<Longrightarrow> cr_category x = c"
  by (auto simp: outcomeRecommendations_def tagRecommendation_def split: option.splits sum.splits)

lemma filter_issues_category:
  "filter (\<lambda>i. ci_category i = c) (concat (map (\<lambda>c'. outcomeIssues c' (f c')) cs))
     = concat (map (\<lambda>c'. if c' = c then outcomeIssues c (f c) else []) cs)"
proof (induction cs)
  case Nil
  then show ?case by simp
next
  case (Cons x cs)
  have "filter (\<lambda>i. ci_category i = c) (outcomeIssues x (f x)) = (if x = c then outcomeIssues c (f c) else [])"
    by (auto simp: filter_empty_conv filter_id_conv dest: outcomeIssues_category)
  with Cons show ?case by simp
qed

lemma filter_other_issues:
  "filter (\<lambda>i. ci_category i \<noteq> c) (concat (map (\<lambda>c'. outcomeIssues c' (f c')) cs))
     = concat (map (\<lambda>c'. if c' = c then [] else outcomeIssues c' (f c')) cs)"
proof (induction cs)
  case Nil
  then show ?case by simp
next
  case (Cons x cs)
  have "filter (\<lambda>i. ci_category i \<noteq> c) (outcomeIssues x (f x)) = (if x = c then [] else outcomeIssues x (f x))"
    by (auto simp: filter_empty_conv filter_id_conv dest: outcomeIssues_category)
  with Cons show ?case by simp
qed

lemma filter_recommendations_category:
  "filter (\<lambda>i. cr_category i = c) (concat (map (\<lambda>c'. outcomeRecommendations c' (f c')) cs))
     = concat (map (\<lambda>c'. if c' = c then outcomeRecommendations c (f c) else []) cs)"
proof (induction cs)
  case Nil
  then show ?case by simp
next
  case (Cons x cs)
  have "filter (\<lambda>i. cr_category i = c) (outcomeRecommendations x (f x)) = (if x = c then outcomeRecommendations c (f c) else [])"
    by (auto simp: filter_empty_conv filter_id_conv dest: outcomeRecommendations_category)
  with Cons show ?case by simp
qed

lemma filter_other_recommendations:
  "filter (\<lambda>i. cr_category i \<noteq> c) (concat (map (\<lambda>c'. outcomeRecommendations c' (f c')) cs))
     = concat (map (\<lambda>c'. if c' = c then [] else outcomeRecommendations c' (f c')) cs)"
proof (induction cs)
  case Nil
  then show ?case by simp
next
  case (Cons x cs)
  have "filter (\<lambda>i. cr_category i \<noteq> c) (outcomeRecommendations x (f x)) = (if x = c then [] else outcomeRecommendations x (f x))"
    by (auto simp: filter_empty_conv filter_id_conv dest: outcomeRecommendations_category)
  with Cons show ?case by simp
qed

lemma concat_all_empty: "(\<And>x. x \<in> set xs \<Longrightarrow> f x = []) \<Longrightarrow> concat (map f xs) = []"
  by (induction xs) auto




section \<open>Isolation of analyzer failures\<close>

text \<open>
  Claim C5. Take any registry and replace the analyzer of one category by one that throws
  on the document (the other entries unchanged). The run with the failing analyzer still
  returns a completed result; in it the score of that category is 0 and no issue or
  recommendation carries that category; every other category has the same score, the same
  issues and the same recommendations as in the run with the original registry.
\<close>

theorem analyzer_failure_isolated:
  assumes reg: "an' c = Some a'"
    and fails: "a' d (quickFlag opts) = Inl e"
    and same: "\<forall>c'. c' \<noteq> c \<longrightarrow> an' c' = an c'"
  shows "\<exists>r r'. fst (analyzeWebpage an' d opts lg) = Inr r
           \<and> fst (analyzeWebpage an d opts lg) = Inr r'
           \<and> status r = COMPLETED
           \<and> scoreOf (categoryScores r) c = 0
           \<and> filter (\<lambda>i. ci_category i = c) (res_issues r) = []
           \<and> filter (\<lambda>x. cr_category x = c) (res_recommendations r) = []
           \<and> (\<forall>c'. c' \<noteq> c \<longrightarrow> scoreOf (categoryScores r) c' = scoreOf (categoryScores r') c')
           \<and> filter (\<lambda>i. ci_category i \<noteq> c) (res_issues r)
               = filter (\<lambda>i. ci_category i \<noteq> c) (res_issues r')
           \<and> filter (\<lambda>x. cr_category x \<noteq> c) (res_recommendations r)
               = filter (\<lambda>x. cr_category x \<noteq> c) (res_recommendations r')"
proof -
  have out_c: "analyzerOutcome an' d opts c = Some (Inl e)"
    using reg fails by (simp add: analyzerOutcome_def)
  have out_other: "c' \<noteq> c \<Longrightarrow> analyzerOutcome an' d opts c' = analyzerOutcome an d opts c'" for c'
    using same by (simp add: analyzerOutcome_def)
  have score_c: "scoreOf (fillMissingScores (ls_scores (analyzeCategories an' d opts lg))) c = 0"
    by (simp add: final_score out_c outcomeScore_def orZero_def)
  have score_other:
    "c' \<noteq> c \<Longrightarrow> scoreOf (fillMissingScores (ls_scores (analyzeCategories an' d opts lg))) c'
       = scoreOf (fillMissingScores (ls_scores (analyzeCategories an d opts lg))) c'" for c'
    by (simp add: final_score out_other)
  have issues_c:
    "filter (\<lambda>i. ci_category i = c) (ls_issues (analyzeCategories an' d opts lg)) = []"
    unfolding final_issues filter_issues_category
    by (rule concat_all_empty) (simp add: out_c outcomeIssues_def)
  have recs_c:
    "filter (\<lambda>x. cr_category x = c) (ls_recommendations (analyzeCategories an' d opts lg)) = []"
  proof (cases "wantsRecommendations opts")
    case True
    have "concat (map (\<lambda>c'. if c' = c then outcomeRecommendations c (analyzerOutcome an' d opts c) else [])
            (categoriesToAnalyze opts)) = []"
      by (rule concat_all_empty) (simp add: out_c outcomeRecommendations_def)
    with True show ?thesis
      by (simp add: final_recommendations filter_recommendations_category)
  next
    case False
    then show ?thesis by (simp add: final_recommendations)
  qed
  have issues_other:
    "filter (\<lambda>i. ci_category i \<noteq> c) (ls_issues (analyzeCategories an' d opts lg))
       = filter (\<lambda>i. ci_category i \<noteq> c) (ls_issues (analyzeCategories an d opts lg))"
    unfolding final_issues filter_other_issues
    by (rule arg_cong [where f = concat], rule map_cong) (simp_all add: out_other)
  have recs_other:
    "filter (\<lambda>x. cr_category x \<noteq> c) (ls_recommendations (analyzeCategories an' d opts lg))
       = filter (\<lambda>x. cr_category x \<noteq> c) (ls_recommendations (analyzeCategories an d opts lg))"
  proof (cases "wantsRecommendations opts")
    case True
    then show ?thesis
      unfolding final_recommendations
      by (simp add: filter_other_recommendations)
         (rule arg_cong [where f = concat], rule map_cong, simp_all add: out_other)
  next
    case False
    then show ?thesis by (simp add: final_recommendations)
  qed
  show ?thesis
    unfolding analyzeWebpage_Inr
    by (simp add: score_c score_other filter_sort issues_c recs_c issues_other recs_other)
qed

theorem analyzer_failure_isolated_witness:
  "faultyRegistry FAQ_SCHEMA = Some throwingAnalyzer
   \<and> throwingAnalyzer testData (quickFlag defaultOptions) = Inl (Error ''forced failure'')
   \<and> (\<exists>r r'. fst (analyzeWebpage faultyRegistry testData defaultOptions []) = Inr r
           \<and> fst (analyzeWebpage (registeredAnalyzers sampleRuntime) testData defaultOptions []) = Inr r'
           \<and> status r = COMPLETED
           \<and> scoreOf (categoryScores r) FAQ_SCHEMA = 0
           \<and> filter (\<lambda>i. ci_category i = FAQ_SCHEMA) (res_issues r) = []
           \<and> filter (\<lambda>x. cr_category x = FAQ_SCHEMA) (res_recommendations r) = []
           \<and> scoreOf (categoryScores r) META_TAGS = scoreOf (categoryScores r') META_TAGS
           \<and> scoreOf (categoryScores r) TECHNICAL_SEO = scoreOf (categoryScores r') TECHNICAL_SEO
           \<and> filter (\<lambda>i. ci_category i \<noteq> FAQ_SCHEMA) (res_issues r)
               = filter (\<lambda>i. ci_category i \<noteq> FAQ_SCHEMA) (res_issues r')
           \<and> filter (\<lambda>x. cr_category x \<noteq> FAQ_SCHEMA) (res_recommendations r)
               = filter (\<lambda>x. cr_category x \<noteq> FAQ_SCHEMA) (res_recommendations r'))"
proof -
  have h1: "faultyRegistry FAQ_SCHEMA = Some throwingAnalyzer"
    by (simp add: faultyRegistry_def)
  have h2: "throwingAnalyzer testData (quickFlag defaultOptions) = Inl (Error ''forced failure'')"
    by (simp add: throwingAnalyzer_def)
  have h3: "\<forall>c'. c' \<noteq> FAQ_SCHEMA \<longrightarrow> faultyRegistry c' = registeredAnalyzers sampleRuntime c'"
    by (simp add: faultyRegistry_def)
  have ne: "META_TAGS \<noteq> FAQ_SCHEMA" "TECHNICAL_SEO \<noteq> FAQ_SCHEMA"
    by simp_all
  from analyzer_failure_isolated [OF h1 h2 h3, of "[]"] h1 h2 ne show ?thesis
    by blast
qed

section \<open>Order of issues and recommendations\<close>

lemma getSeverityPriority_inj: "getSeverityPriority a = getSeverityPriority b \<longleftrightarrow> a = b"
  by (cases a; cases b; simp)

lemma getSeverityPriority_eq:
  "getSeverityPriority s = 1 \<longleftrightarrow> s = CRITICAL" "getSeverityPriority s = 2 \<longleftrightarrow> s = HIGH"
  "getSeverityPriority s = 3 \<longleftrightarrow> s = MEDIUM" "getSeverityPriority s = 4 \<longleftrightarrow> s = LOW"
  "1 = getSeverityPriority s \<longleftrightarrow> s = CRITICAL" "2 = getSeverityPriority s \<longleftrightarrow> s = HIGH"
  "3 = getSeverityPriority s \<longleftrightarrow> s = MEDIUM" "4 = getSeverityPriority s \<longleftrightarrow> s = LOW"
  by (cases s; simp)+

lemma sorted_all_equal: "(\<And>x. x \<in> set ys \<Longrightarrow> x = k) \<Longrightarrow> sorted (ys :: int list)"
  by (induction ys) auto

lemma mset_bySeverity:
  "mset (bySeverity CRITICAL xs @ bySeverity HIGH xs @ bySeverity MEDIUM xs @ bySeverity LOW xs) = mset xs"
proof (induction xs)
  case Nil
  then show ?case by (simp add: bySeverity_def)
next
  case (Cons x xs)
  then show ?case by (cases "severity x") (simp_all add: bySeverity_def)
qed

lemma sort_by_severity:
  "sort_key (\<lambda>a. getSeverityPriority (severity a)) xs
     = bySeverity CRITICAL xs @ bySeverity HIGH xs @ bySeverity MEDIUM xs @ bySeverity LOW xs"
proof (rule properties_for_sort_key)
  show "mset (bySeverity CRITICAL xs @ bySeverity HIGH xs @ bySeverity MEDIUM xs @ bySeverity LOW xs) = mset xs"
    by (rule mset_bySeverity)
next
  fix k
  assume "k \<in> set (bySeverity CRITICAL xs @ bySeverity HIGH xs @ bySeverity MEDIUM xs @ bySeverity LOW xs)"
  show "filter (\<lambda>x. getSeverityPriority (severity k) = getSeverityPriority (severity x))
          (bySeverity CRITICAL xs @ bySeverity HIGH xs @ bySeverity MEDIUM xs @ bySeverity LOW xs)
        = filter (\<lambda>x. getSeverityPriority (severity k) = getSeverityPriority (severity x)) xs"
    by (cases "severity k")
       (auto simp: bySeverity_def getSeverityPriority_eq filter_empty_conv intro!: filter_cong)
next
  show "sorted (map (\<lambda>a. getSeverityPriority (severity a))
          (bySeverity CRITICAL xs @ bySeverity HIGH xs @ bySeverity MEDIUM xs @ bySeverity LOW xs))"
    by (auto simp: bySeverity_def sorted_append
             intro: sorted_all_equal [where k = 1] sorted_all_equal [where k = 2]
                    sorted_all_equal [where k = 3] sorted_all_equal [where k = 4])
qed


text \<open>
  Claim C7. The issues of a result are the issues collected by the loop, rearranged as
  the critical ones, then the high ones, then the medium ones, then the low ones, each
  group in the order of collection. The recommendations are in ascending order of
  priority, and those of any one priority are in the order of collection.
\<close>

theorem analyzeWebpage_sorted_stable:
  assumes "fst (analyzeWebpage an d opts lg) = Inr r"
  shows "res_issues r =
           bySeverity CRITICAL (ls_issues (analyzeCategories an d opts lg))
           @ bySeverity HIGH (ls_issues (analyzeCategories an d opts lg))
           @ bySeverity MEDIUM (ls_issues (analyzeCategories an d opts lg))
           @ bySeverity LOW (ls_issues (analyzeCategories an d opts lg))
         \<and> sorted (map priority (res_recommendations r))
         \<and> (\<forall>p. filter (\<lambda>x. priority x = p) (res_recommendations r)
                  = filter (\<lambda>x. priority x = p) (ls_recommendations (analyzeCategories an d opts lg)))"
  using assms unfolding analyzeWebpage_Inr
  by (auto simp: sort_by_severity sort_key_stable)

theorem analyzeWebpage_sorted_stable_witness:
  "fst (analyzeWebpage (registeredAnalyzers sampleRuntime) testData withRecommendations [])
     = Inr (projr (fst (analyzeWebpage (registeredAnalyzers sampleRuntime) testData withRecommendations [])))
   \<and> map severity
         (res_issues (projr (fst (analyzeWebpage (registeredAnalyzers sampleRuntime) testData
                                     withRecommendations []))))
       = map severity
           (bySeverity CRITICAL (ls_issues (analyzeCategories (registeredAnalyzers sampleRuntime)
                                              testData withRecommendations []))
            @ bySeverity HIGH (ls_issues (analyzeCategories (registeredAnalyzers sampleRuntime)
                                            testData withRecommendations []))
            @ bySeverity MEDIUM (ls_issues (analyzeCategories (registeredAnalyzers sampleRuntime)
                                              testData withRecommendations []))
            @ bySeverity LOW (ls_issues (analyzeCategories (registeredAnalyzers sampleRuntime)
                                           testData withRecommendations [])))
   \<and> sorted (map priority
         (res_recommendations (projr (fst (analyzeWebpage (registeredAnalyzers sampleRuntime)
                                              testData withRecommendations [])))))"
proof -
  have h: "fst (analyzeWebpage (registeredAnalyzers sampleRuntime) testData withRecommendations [])
     = Inr (projr (fst (analyzeWebpage (registeredAnalyzers sampleRuntime) testData withRecommendations [])))"
    by (simp add: analyzeWebpage_Inr)
  from analyzeWebpage_sorted_stable [OF h] h show ?thesis
    by simp
qed

section \<open>Unregistered categories\<close>

text \<open>
  Claim C10. When no analyzer is registered for a category, getCategorySummary throws
  the error \<open>No analyzer found for category\<close>, whereas analyzeWebpage completes, with
  score 0 and neither issues nor recommendations for that category.
\<close>

theorem getCategorySummary_unregistered:
  assumes "an c = None"
  shows "getCategorySummary an d c
           = Inl (Error (''No analyzer found for category: '' @ categoryValue c))
         \<and> (\<exists>r. fst (analyzeWebpage an d opts lg) = Inr r
                \<and> status r = COMPLETED
                \<and> scoreOf (categoryScores r) c = 0
                \<and> filter (\<lambda>i. ci_category i = c) (res_issues r) = []
                \<and> filter (\<lambda>x. cr_category x = c) (res_recommendations r) = [])"
proof -
  have out: "analyzerOutcome an d opts c = None"
    using assms by (simp add: analyzerOutcome_def)
  have issues_c: "filter (\<lambda>i. ci_category i = c) (ls_issues (analyzeCategories an d opts lg)) = []"
    unfolding final_issues filter_issues_category
    by (rule concat_all_empty) (simp add: out outcomeIssues_def)
  have recs_c:
    "filter (\<lambda>x. cr_category x = c) (ls_recommendations (analyzeCategories an d opts lg)) = []"
  proof (cases "wantsRecommendations opts")
    case True
    have "concat (map (\<lambda>c'. if c' = c then outcomeRecommendations c (analyzerOutcome an d opts c) else [])
            (categoriesToAnalyze opts)) = []"
      by (rule concat_all_empty) (simp add: out outcomeRecommendations_def)
    with True show ?thesis
      by (simp add: final_recommendations filter_recommendations_category)
  next
    case False
    then show ?thesis by (simp add: final_recommendations)
  qed
  show ?thesis
    unfolding analyzeWebpage_Inr
    by (simp add: getCategorySummary_def assms final_score out outcomeScore_def orZero_def
          filter_sort issues_c recs_c)
qed

theorem getCategorySummary_unregistered_witness:
  "withoutVoiceSearch VOICE_SEARCH = None
   \<and> getCategorySummary withoutVoiceSearch testData VOICE_SEARCH
       = Inl (Error ''No analyzer found for category: voice_search'')
   \<and> (\<exists>r. fst (analyzeWebpage withoutVoiceSearch testData voiceSearchOnly []) = Inr r
          \<and> status r = COMPLETED
          \<and> scoreOf (categoryScores r) VOICE_SEARCH = 0
          \<and> filter (\<lambda>i. ci_category i = VOICE_SEARCH) (res_issues r) = []
          \<and> filter (\<lambda>x. cr_category x = VOICE_SEARCH) (res_recommendations r) = [])"
proof -
  have h: "withoutVoiceSearch VOICE_SEARCH = None"
    by (simp add: withoutVoiceSearch_def)
  from getCategorySummary_unregistered
         [where an = withoutVoiceSearch and c = VOICE_SEARCH and d = testData
            and opts = voiceSearchOnly and lg = "[]", OF h] h
  show ?thesis by simp
qed

section \<open>Input validation\<close>

text \<open>
  Claim C3, as stated: an invalid document makes the orchestrator fail with a
  validation error before any analyzer runs. The document with an empty url is rejected
  by the validation schema of scraped data, yet analyzeWebpage analyzes it and returns a
  completed result with overall score 3: the schema is never consulted.
\<close>

theorem analyzeWebpage_validation_counterexample:
  "\<not> scrapedDataSchema sampleRuntime noUrlDoc
   \<and> map_sum id (\<lambda>r. (status r, overallScore r))
         (fst (analyzeWebpage (registeredAnalyzers sampleRuntime) noUrlDoc defaultOptions []))
       = Inr (COMPLETED, 3)"
  by code_simp

text \<open>
  Claim C3, amended: analyzeWebpage does not validate the document model. For every
  document, valid or not, and for every registry and options, it returns a completed
  result, in which the score of each requested category is the score its analyzer
  returned for that document (0 when the analyzer threw or none is registered) and the
  score of every other category is 0. No failure is surfaced to the caller.
\<close>

theorem analyzeWebpage_always_completes:
  "\<exists>r. fst (analyzeWebpage an d opts lg) = Inr r
       \<and> status r = COMPLETED
       \<and> (\<forall>c. scoreOf (categoryScores r) c
                 = (if c \<in> set (categoriesToAnalyze opts)
                    then orZero (outcomeScore (analyzerOutcome an d opts c)) else 0))"
  unfolding analyzeWebpage_Inr by (simp add: final_score)

section \<open>Coverage of the category scores\<close>



lemma jsRound_bounds: "0 \<le> x \<Longrightarrow> x \<le> 100 \<Longrightarrow> 0 \<le> jsRound x \<and> jsRound x \<le> 100"
  unfolding jsRound_def by (simp add: floor_le_iff le_floor_iff)

lemma faqQualityLoop_ge: "faqQualityLoop rt es acc = Inr v \<Longrightarrow> acc \<le> v"
proof (induction es arbitrary: acc)
  case Nil
  then show ?case by simp
next
  case (Cons e es)
  from Cons.prems obtain gq ga where "faqQualityLoop rt es (acc + (if gq then 3 else 0) + (if ga then 2 else 0)) = Inr v"
    by (auto split: sum.splits)
  from Cons.IH [OF this] show ?case by (auto split: if_splits)
qed

lemma evaluateFAQQuality_range: "evaluateFAQQuality rt m = Inr v \<Longrightarrow> 70 \<le> v \<and> v \<le> 100"
  by (auto simp: evaluateFAQQuality_def split: sum.splits dest: faqQualityLoop_ge)

lemma faqSchemaCheck_nonneg: "faqSchemaCheck rt fs = Inr r \<Longrightarrow> 0 \<le> score r"
  by (auto simp: faqSchemaCheck_def Let_def split: if_splits list.splits sum.splits
           dest!: evaluateFAQQuality_range)

lemma FAQ_range: "FAQSchemaAnalyzer_analyze rt d q = Inr r \<Longrightarrow> inRange (score r)"
  by (auto simp: FAQSchemaAnalyzer_analyze_def inRange_def Let_def split: sum.splits
           dest!: faqSchemaCheck_nonneg)

lemma points_nonneg_aux:
  "0 \<le> (acc::rat) \<Longrightarrow> list_all (\<lambda>pn. 0 \<le> snd pn) table \<Longrightarrow>
     0 \<le> foldl (\<lambda>sc (p, n). if has dat p then sc + n else sc) acc table"
proof (induction table arbitrary: acc)
  case Nil
  then show ?case by simp
next
  case (Cons pn table)
  obtain p n where pn: "pn = (p, n)" by (cases pn)
  from Cons.prems have n: "0 \<le> n" and rest: "list_all (\<lambda>pn. 0 \<le> snd pn) table"
    by (simp_all add: pn)
  have "0 \<le> (if has dat p then acc + n else acc)"
    using Cons.prems(1) n by simp
  from Cons.IH [OF this rest] show ?case by (simp add: pn)
qed

lemma points_nonneg: "list_all (\<lambda>pn. 0 \<le> snd pn) table \<Longrightarrow> 0 \<le> points dat table"
  unfolding points_def by (rule points_nonneg_aux) simp_all

lemma schemaCompleteness_nonneg: "0 \<le> schemaCompleteness s"
  by (auto simp: schemaCompleteness_def evaluateArticleSchema_def evaluateOrganizationSchema_def
        evaluateLocalBusinessSchema_def evaluateProductSchema_def evaluateGenericSchema_def
        intro!: points_nonneg add_nonneg_nonneg)

lemma foldl_completeness_nonneg:
  "0 \<le> acc \<Longrightarrow> 0 \<le> foldl (\<lambda>sum schema. sum + schemaCompleteness schema) acc ss"
  by (induction ss arbitrary: acc) (simp_all add: schemaCompleteness_nonneg)

lemma evaluateSchemaCompleteness_nonneg: "0 \<le> evaluateSchemaCompleteness ss"
  by (simp add: evaluateSchemaCompleteness_def Let_def foldl_completeness_nonneg)

lemma calculateSchemaScore_range: "inRange (calculateSchemaScore ss)"
  using evaluateSchemaCompleteness_nonneg [of ss]
  by (auto simp: calculateSchemaScore_def Let_def inRange_def min_def)

lemma Schema_range: "SchemaMarkupAnalyzer_analyze rt d q = Inr r \<Longrightarrow> inRange (score r)"
  using calculateSchemaScore_range [of "filter isValid (schemas d)"]
  by (auto simp: SchemaMarkupAnalyzer_analyze_def Let_def inRange_def split: if_splits prod.splits)

lemma calculateScore3:
  "calculateScore [(40, a), (30, b), (30, c)] = of_int (jsRound ((a * 40 + b * 30 + c * 30) / 100))"
  by (simp add: calculateScore_def)

lemma calculateScore5:
  "calculateScore [(30, a), (25, b), (20, c), (15, e), (10, f)]
     = of_int (jsRound ((a * 30 + b * 25 + c * 20 + e * 15 + f * 10) / 100))"
  by (simp add: calculateScore_def)

lemma inRange_round: "0 \<le> x \<Longrightarrow> x \<le> 100 \<Longrightarrow> inRange (of_int (jsRound x))"
  using jsRound_bounds [of x] by (simp add: inRange_def)

lemma Content_range: "ContentStructureAnalyzer_analyze rt d q = Inr r \<Longrightarrow> inRange (score r)"
  by (auto simp: ContentStructureAnalyzer_analyze_def Let_def calculateScore3
        analyzeHeadingStructure_def analyzeContentReadability_def analyzeContentStructure_def
        split: prod.splits if_splits intro!: inRange_round)

lemma simple_ranges:
  "FeaturedSnippetsAnalyzer_analyze d q = Inr r \<Longrightarrow> inRange (score r)"
  "EntityOptimizationAnalyzer_analyze rt d q = Inr r \<Longrightarrow> inRange (score r)"
  "KnowledgeGraphAnalyzer_analyze d q = Inr r \<Longrightarrow> inRange (score r)"
  "SemanticHTMLAnalyzer_analyze d q = Inr r \<Longrightarrow> inRange (score r)"
  "VoiceSearchAnalyzer_analyze d q = Inr r \<Longrightarrow> inRange (score r)"
  by (auto simp: FeaturedSnippetsAnalyzer_analyze_def EntityOptimizationAnalyzer_analyze_def
        KnowledgeGraphAnalyzer_analyze_def SemanticHTMLAnalyzer_analyze_def
        VoiceSearchAnalyzer_analyze_def Let_def inRange_def)

lemma Technical_range: "TechnicalSEOAnalyzer_analyze rt d q = Inr r \<Longrightarrow> inRange (score r)"
  by (auto simp: TechnicalSEOAnalyzer_analyze_def Let_def inRange_def split: prod.splits if_splits option.splits)

lemma title_range: "analyzeTitleTag t iss = (v, iss') \<Longrightarrow> 0 \<le> v \<and> v \<le> 80"
  by (auto simp: analyzeTitleTag_def Let_def split: if_splits prod.splits)

lemma description_range: "analyzeMetaDescription t iss = (v, iss') \<Longrightarrow> 0 \<le> v \<and> v \<le> 90"
  by (auto simp: analyzeMetaDescription_def Let_def split: if_splits prod.splits)

lemma metaTags_range: "analyzeMetaTags t iss = (v, iss') \<Longrightarrow> 0 \<le> v \<and> v \<le> 100"
  by (auto simp: analyzeMetaTags_def Let_def)

lemma countPresent_pos: "k \<in> set keys \<Longrightarrow> m k \<noteq> None \<Longrightarrow> 1 \<le> countPresent m keys"
proof -
  assume "k \<in> set keys" "m k \<noteq> None"
  then have "k \<in> set (filter (\<lambda>k. m k \<noteq> None) keys)" by simp
  then have "filter (\<lambda>k. m k \<noteq> None) keys \<noteq> []" by (metis empty_iff list.set(1))
  then show ?thesis
    unfolding countPresent_def by (cases "filter (\<lambda>k. m k \<noteq> None) keys") simp_all
qed

lemma og_range: "analyzeOpenGraphTags rt t iss = (v, iss') \<Longrightarrow> 0 \<le> v \<and> v \<le> 100"
proof -
  assume a: "analyzeOpenGraphTags rt t iss = (v, iss')"
  have "openGraphMap t ''og:image'' \<noteq> None \<Longrightarrow> (1::rat) \<le> of_nat (countPresent (openGraphMap t) IMPORTANT_OG_TAGS)"
    using countPresent_pos [of "''og:image''" IMPORTANT_OG_TAGS "openGraphMap t"]
    by (simp add: IMPORTANT_OG_TAGS_def)
  with a show ?thesis
    by (auto simp: analyzeOpenGraphTags_def Let_def split: if_splits option.splits)
qed

lemma twitter_range: "analyzeTwitterTags t iss = (v, iss') \<Longrightarrow> 0 \<le> v \<and> v \<le> 100"
  by (auto simp: analyzeTwitterTags_def Let_def split: if_splits)

lemma Meta_range: "MetaTagsAnalyzer_analyze rt d q = Inr r \<Longrightarrow> inRange (score r)"
proof -
  assume a: "MetaTagsAnalyzer_analyze rt d q = Inr r"
  obtain t i1 where t: "analyzeTitleTag (title d) [] = (t, i1)" by force
  obtain m i2 where m: "analyzeMetaDescription (metaDescription d) i1 = (m, i2)" by force
  obtain g i3 where g: "analyzeMetaTags (metaTags d) i2 = (g, i3)" by force
  obtain o' i4 where o: "analyzeOpenGraphTags rt (openGraphTags d) i3 = (o', i4)" by force
  obtain w i5 where w: "analyzeTwitterTags (metaTags d) i4 = (w, i5)" by force
  note b = title_range [OF t] description_range [OF m] metaTags_range [OF g] og_range [OF o] twitter_range [OF w]
  have sc: "score r = min 100 (of_int (jsRound ((t * 30 + m * 25 + g * 20 + o' * 15 + w * 10) / 100)))"
    using a by (auto simp: MetaTagsAnalyzer_analyze_def Let_def t m g o w calculateScore5)
  have "inRange (of_int (jsRound ((t * 30 + m * 25 + g * 20 + o' * 15 + w * 10) / 100)))"
    using b by (intro inRange_round) auto
  then show ?thesis by (simp add: sc inRange_def)
qed

lemma registered_range:
  "registeredAnalyzers rt c = Some a \<Longrightarrow> a d q = Inr r \<Longrightarrow> inRange (score r)"
  by (cases c) (auto dest: FAQ_range Schema_range Content_range simple_ranges Technical_range Meta_range)


text \<open>
  Claim C6. For every document, options and log, the run over the registered analyzers
  returns a result whose score record has exactly the ten fixed keys, each score between
  0 and 100; a category that was not requested, or whose analyzer threw, has score 0.
\<close>

theorem categoryScores_total:
  "\<exists>r. fst (analyzeWebpage (registeredAnalyzers rt) d opts lg) = Inr r
       \<and> map fst (categoryScoreEntries (categoryScores r)) = map getCategoryScoreKey allCategories
       \<and> (\<forall>c. 0 \<le> scoreOf (categoryScores r) c \<and> scoreOf (categoryScores r) c \<le> 100)
       \<and> (\<forall>c. c \<notin> set (categoriesToAnalyze opts) \<longrightarrow> scoreOf (categoryScores r) c = 0)
       \<and> (\<forall>c a e. registeredAnalyzers rt c = Some a \<and> a d (quickFlag opts) = Inl e
                  \<longrightarrow> scoreOf (categoryScores r) c = 0)"
proof -
  let ?an = "registeredAnalyzers rt"
  let ?cs = "fillMissingScores (ls_scores (analyzeCategories ?an d opts lg))"
  have range: "0 \<le> scoreOf ?cs c \<and> scoreOf ?cs c \<le> 100" for c
  proof -
    obtain a where a: "?an c = Some a" by (cases c) simp_all
    show ?thesis
    proof (cases "a d (quickFlag opts)")
      case (Inl e)
      then show ?thesis
        by (simp add: final_score analyzerOutcome_def a outcomeScore_def orZero_def)
    next
      case (Inr res)
      from registered_range [OF a Inr] show ?thesis
        by (simp add: final_score analyzerOutcome_def a Inr outcomeScore_def orZero_def inRange_def)
    qed
  qed
  have failed: "?an c = Some a \<Longrightarrow> a d (quickFlag opts) = Inl e \<Longrightarrow> scoreOf ?cs c = 0" for c a e
    by (simp add: final_score analyzerOutcome_def outcomeScore_def orZero_def)
  have keys: "map fst (categoryScoreEntries ?cs) = map getCategoryScoreKey allCategories"
    by (simp add: categoryScoreEntries_def allCategories_def)
  have not_requested: "c \<notin> set (categoriesToAnalyze opts) \<Longrightarrow> scoreOf ?cs c = 0" for c
    by (simp add: final_score)
  show ?thesis
    unfolding analyzeWebpage_Inr
    using range failed keys not_requested by auto
qed

theorem categoryScores_total_witness:
  "VOICE_SEARCH \<notin> set (categoriesToAnalyze twoCategories)
   \<and> registeredAnalyzers sampleRuntime FAQ_SCHEMA = Some (FAQSchemaAnalyzer_analyze sampleRuntime)
   \<and> FAQSchemaAnalyzer_analyze sampleRuntime brokenTypeDoc (quickFlag twoCategories) = Inl TypeError
   \<and> (\<exists>r. fst (analyzeWebpage (registeredAnalyzers sampleRuntime) brokenTypeDoc twoCategories []) = Inr r
          \<and> scoreOf (categoryScores r) VOICE_SEARCH = 0
          \<and> scoreOf (categoryScores r) FAQ_SCHEMA = 0
          \<and> 0 \<le> scoreOf (categoryScores r) META_TAGS
          \<and> scoreOf (categoryScores r) META_TAGS \<le> 100)"
proof -
  have h1: "VOICE_SEARCH \<notin> set (categoriesToAnalyze twoCategories)"
    by (simp add: categoriesToAnalyze_def twoCategories_def)
  have h2: "registeredAnalyzers sampleRuntime FAQ_SCHEMA = Some (FAQSchemaAnalyzer_analyze sampleRuntime)"
    by simp
  have h3: "FAQSchemaAnalyzer_analyze sampleRuntime brokenTypeDoc (quickFlag twoCategories) = Inl TypeError"
    by code_simp
  from categoryScores_total [of sampleRuntime brokenTypeDoc twoCategories "[]"] h1 h2 h3
  show ?thesis by blast
qed

section \<open>FAQ schema analyzer: the two examples\<close>

lemma goodAnswer: "wellFormedAnswer a \<Longrightarrow> isGoodAnswer (JStr a) = Inr True"
proof -
  assume w: "wellFormedAnswer a"
  then have "a \<noteq> []" by (auto simp: wellFormedAnswer_def)
  with w show ?thesis by (simp add: isGoodAnswer_def wellFormedAnswer_def)
qed

lemma goodQuestion_total: "\<exists>b. isGoodQuestion rt (JStr q) = Inr b"
  by (auto simp: isGoodQuestion_def)

lemma entry_reads:
  "getProp (faqEntry q a) ''name'' = Inr (Some (JStr q))"
  "acceptedAnswerText (faqEntry q a) = Inr (Some (JStr a))"
  by (simp_all add: faqEntry_def acceptedAnswerText_def)

lemma orEmptyString_JStr [simp]: "orEmptyString (Some (JStr s)) = JStr s"
  by (simp add: orEmptyString_def)

lemma faqQualityLoop_wellFormed:
  "list_all (\<lambda>(q, a). wellFormedQuestion q \<and> wellFormedAnswer a) qas \<Longrightarrow>
     \<exists>v. faqQualityLoop rt (map (\<lambda>(q, a). faqEntry q a) qas) acc = Inr v
         \<and> acc + 2 * of_nat (length qas) \<le> v"
proof (induction qas arbitrary: acc)
  case Nil
  then show ?case by simp
next
  case (Cons qa qas)
  obtain q a where qa: "qa = (q, a)" by (cases qa)
  from Cons.prems have wa: "wellFormedAnswer a"
    and rest: "list_all (\<lambda>(q, a). wellFormedQuestion q \<and> wellFormedAnswer a) qas"
    by (simp_all add: qa)
  obtain b where b: "isGoodQuestion rt (JStr q) = Inr b"
    using goodQuestion_total by blast
  let ?acc = "acc + (if b then 3 else 0) + 2"
  from Cons.IH [OF rest, of ?acc] obtain v
    where v: "faqQualityLoop rt (map (\<lambda>(q, a). faqEntry q a) qas) ?acc = Inr v"
      and le: "?acc + 2 * of_nat (length qas) \<le> v" by blast
  have "faqQualityLoop rt (map (\<lambda>(q, a). faqEntry q a) (qa # qas)) acc = Inr v"
    by (simp add: qa entry_reads b goodAnswer [OF wa] v)
  moreover have "acc + 2 * of_nat (length (qa # qas)) \<le> v"
    using le by (simp split: if_splits)
  ultimately show ?case by blast
qed


lemma padded_words: "countWords paddedAnswer = 80"
  unfolding paddedAnswer_def by code_simp

lemma padded_pieces: "length (splitRuns isWhiteSpace paddedAnswer) = 81"
  unfolding paddedAnswer_def by code_simp

lemma short_question: "wellFormedQuestion ''Why so?''"
  by code_simp

lemma padded_nonempty: "paddedAnswer \<noteq> []"
  unfolding paddedAnswer_def by code_simp

lemma padded_entry:
  "faqQualityLoop sampleRuntime (faqEntry ''Why so?'' paddedAnswer # rest) acc
     = faqQualityLoop sampleRuntime rest acc"
  by (simp add: faqEntry_def acceptedAnswerText_def orEmptyString_def isGoodQuestion_def
        isGoodAnswer_def padded_pieces padded_nonempty jsLess_def)

text \<open>
  Claim C2, as stated: a document without structured-data blocks gets score 0 and one
  issue of severity critical; a valid FAQPage block of six entries whose questions end
  in a question mark and contain an interrogative word and whose answers have 20 to 80
  words gets a score of at least 80. On the document of the health check, which has no
  block, the FAQ analyzer returns score 0 and one issue, \<open>Missing FAQ Schema\<close>, whose
  severity is high, not critical. And on a FAQPage block of six entries with the
  question \<open>Why so?\<close> and an answer of 80 words followed by a space it returns 70: a
  question shorter than 10 characters earns nothing, and the analyzer counts the pieces
  of the answer between runs of white space, here 81.
\<close>

theorem FAQSchemaAnalyzer_missing_counterexample:
  "schemas testData = []
   \<and> map_sum id (\<lambda>r. (score r, map severity (issues r), map i_title (issues r)))
         (FAQSchemaAnalyzer_analyze sampleRuntime testData False)
       = Inr (0, [HIGH], [''Missing FAQ Schema''])
   \<and> length shortQuestions = 6
   \<and> list_all (\<lambda>(q, a). wellFormedQuestion q \<and> countWords a = 80) shortQuestions
   \<and> map_sum id score (FAQSchemaAnalyzer_analyze sampleRuntime paddedFaqDoc False) = Inr 70"
proof -
  have a: "schemas testData = []
   \<and> map_sum id (\<lambda>r. (score r, map severity (issues r), map i_title (issues r)))
         (FAQSchemaAnalyzer_analyze sampleRuntime testData False)
       = Inr (0, [HIGH], [''Missing FAQ Schema''])"
    by code_simp
  have b: "length shortQuestions = 6
     \<and> list_all (\<lambda>(q, a). wellFormedQuestion q \<and> countWords a = 80) shortQuestions"
    by (simp add: shortQuestions_def numeral_eq_Suc short_question padded_words)
  have loop: "faqQualityLoop sampleRuntime (map (\<lambda>(q, a). faqEntry q a) shortQuestions) 70 = Inr 70"
    by (simp add: shortQuestions_def numeral_eq_Suc padded_entry del: faqQualityLoop.simps(2))
  have len: "length shortQuestions = 6" "shortQuestions \<noteq> []"
    by (simp_all add: shortQuestions_def)
  have c: "map_sum id score (FAQSchemaAnalyzer_analyze sampleRuntime paddedFaqDoc False) = Inr 70"
    by (simp add: FAQSchemaAnalyzer_analyze_def paddedFaqDoc_def testData_def isFAQSchema_def
          faqSchemaCheck_def Let_def jsLess_def evaluateFAQQuality_def loop len)
  from a b c show ?thesis by simp
qed

text \<open>
  Claim C2, amended: for a document whose list of structured-data blocks is empty, the
  FAQ analyzer returns score 0 and exactly one issue, of severity high, titled
  \<open>Missing FAQ Schema\<close>. For a document with one valid FAQPage block of six entries,
  each with a question that ends in a question mark and contains an interrogative word
  and an answer of 20 to 80 words as the analyzer counts them (the pieces between runs
  of white space, so that white space before or after the text adds a piece), it returns
  a score of at least 80 and no issue at all, so no critical one.
\<close>

theorem FAQSchemaAnalyzer_example:
  "(schemas d = [] \<longrightarrow>
      (\<exists>r. FAQSchemaAnalyzer_analyze rt d quickMode = Inr r \<and> score r = 0
           \<and> issues r = [missingFAQIssue] \<and> severity missingFAQIssue = HIGH
           \<and> i_title missingFAQIssue = ''Missing FAQ Schema''))
   \<and> (schemas d = [s] \<and> s_type s = ''FAQPage'' \<and> isValid s
        \<and> map_of (s_data s) ''mainEntity'' = Some (JArr (map (\<lambda>(q, a). faqEntry q a) qas))
        \<and> length qas = 6
        \<and> list_all (\<lambda>(q, a). wellFormedQuestion q \<and> wellFormedAnswer a) qas \<longrightarrow>
      (\<exists>r. FAQSchemaAnalyzer_analyze rt d quickMode = Inr r \<and> 80 \<le> score r \<and> score r \<le> 100
           \<and> issues r = []))"
proof (intro conjI impI)
  assume "schemas d = []"
  then show "\<exists>r. FAQSchemaAnalyzer_analyze rt d quickMode = Inr r \<and> score r = 0
           \<and> issues r = [missingFAQIssue] \<and> severity missingFAQIssue = HIGH
           \<and> i_title missingFAQIssue = ''Missing FAQ Schema''"
    by (simp add: FAQSchemaAnalyzer_analyze_def faqSchemaCheck_def Let_def missingFAQIssue_def)
next
  assume a: "schemas d = [s] \<and> s_type s = ''FAQPage'' \<and> isValid s
        \<and> map_of (s_data s) ''mainEntity'' = Some (JArr (map (\<lambda>(q, a). faqEntry q a) qas))
        \<and> length qas = 6
        \<and> list_all (\<lambda>(q, a). wellFormedQuestion q \<and> wellFormedAnswer a) qas"
  let ?entries = "map (\<lambda>(q, a). faqEntry q a) qas"
  from a have wf: "list_all (\<lambda>(q, a). wellFormedQuestion q \<and> wellFormedAnswer a) qas" by simp
  from faqQualityLoop_wellFormed [OF wf, of rt 70] a obtain v
    where v: "faqQualityLoop rt ?entries 70 = Inr v" and le: "82 \<le> v" by auto
  have ev: "evaluateFAQQuality rt (JArr ?entries) = Inr (min 100 v)"
    by (simp add: evaluateFAQQuality_def v)
  have filt: "filterE isFAQSchema (schemas d) = Inr [s]"
    using a by (simp add: isFAQSchema_def)
  have chk: "faqSchemaCheck rt [s] =
      Inr \<lparr> score = min 100 v, issues = [], recommendations = [] \<rparr>"
    using a le by (simp add: faqSchemaCheck_def Let_def jsLess_def ev)
  show "\<exists>r. FAQSchemaAnalyzer_analyze rt d quickMode = Inr r \<and> 80 \<le> score r \<and> score r \<le> 100
           \<and> issues r = []"
    using le by (simp add: FAQSchemaAnalyzer_analyze_def filt chk Let_def)
qed

theorem FAQSchemaAnalyzer_example_witness:
  "schemas testData = []
   \<and> (\<exists>r. FAQSchemaAnalyzer_analyze sampleRuntime testData False = Inr r \<and> score r = 0
          \<and> issues r = [missingFAQIssue])
   \<and> schemas faqDoc = [faqPage] \<and> s_type faqPage = ''FAQPage'' \<and> isValid faqPage
   \<and> map_of (s_data faqPage) ''mainEntity''
       = Some (JArr (map (\<lambda>(q, a). faqEntry q a) sampleQuestions))
   \<and> length sampleQuestions = 6
   \<and> list_all (\<lambda>(q, a). wellFormedQuestion q \<and> wellFormedAnswer a) sampleQuestions
   \<and> (\<exists>r. FAQSchemaAnalyzer_analyze sampleRuntime faqDoc False = Inr r \<and> 80 \<le> score r
          \<and> score r \<le> 100 \<and> issues r = [])"
proof -
  have h0: "schemas testData = []"
    by (simp add: testData_def)
  have h1: "schemas faqDoc = [faqPage] \<and> s_type faqPage = ''FAQPage'' \<and> isValid faqPage
      \<and> map_of (s_data faqPage) ''mainEntity''
          = Some (JArr (map (\<lambda>(q, a). faqEntry q a) sampleQuestions))
      \<and> length sampleQuestions = 6
      \<and> list_all (\<lambda>(q, a). wellFormedQuestion q \<and> wellFormedAnswer a) sampleQuestions"
    by code_simp
  from FAQSchemaAnalyzer_example [of testData sampleRuntime False faqPage sampleQuestions] h0
  have c0: "\<exists>r. FAQSchemaAnalyzer_analyze sampleRuntime testData False = Inr r \<and> score r = 0
          \<and> issues r = [missingFAQIssue]"
    by blast
  from FAQSchemaAnalyzer_example [of faqDoc sampleRuntime False faqPage sampleQuestions] h1
  have c1: "\<exists>r. FAQSchemaAnalyzer_analyze sampleRuntime faqDoc False = Inr r \<and> 80 \<le> score r
          \<and> score r \<le> 100 \<and> issues r = []"
    by blast
  from h0 h1 c0 c1 show ?thesis by blast
qed

section \<open>Meta tags analyzer: lengths 55 and 155\<close>

lemma trim_nonempty: "trim t \<noteq> [] \<Longrightarrow> t \<noteq> []"
  by (auto simp: trim_def)

text \<open>
  Claim C9, as stated: a title of exactly 55 characters and a meta description of exactly
  155 characters take the good-length branch. A title of 55 spaces has exactly 55
  characters and is treated as a missing title: sub-score 0 and the critical issue
  \<open>Missing Title Tag\<close>. A meta description of 155 spaces, which the scraper hands over
  as the \<open>content\<close> attribute holds it, has exactly 155 characters and is treated as a
  missing description: sub-score 0 and the issue \<open>Missing Meta Description\<close>. Neither
  reaches the length check.
\<close>

theorem good_length_counterexample:
  "length blank55 = 55
   \<and> analyzeTitleTag blank55 [] = (0, [missingTitleIssue])
   \<and> length blank155 = 155
   \<and> analyzeMetaDescription blank155 [] = (0, [missingDescriptionIssue])"
  unfolding blank55_def blank155_def by code_simp

text \<open>
  Claim C9, amended: a title of exactly 55 characters that is not blank takes the
  good-length branch of the title check: 20 is added to the base 50 and neither
  \<open>Title Too Short\<close> nor \<open>Title Too Long\<close> is reported (only the duplicate-word
  penalty and the brand bonus can follow). A meta description of exactly 155 characters
  that is not blank takes the good-length branch of the description check: 25 is added
  to the base 50 and neither \<open>Meta Description Too Short\<close> nor
  \<open>Meta Description Too Long\<close> is reported (only the call-to-action bonus or issue and
  the generic-description penalty can follow). A blank title or description, one that
  white space alone makes up, is treated as missing whatever its length: the sub-score is
  0 and the only issue added is \<open>Missing Title Tag\<close>, respectively
  \<open>Missing Meta Description\<close>.
\<close>

theorem good_length_branches:
  "(length t = 55 \<and> trim t \<noteq> [] \<longrightarrow>
      analyzeTitleTag t iss =
        (max 0 (50 + 20 - (if repeatsWord t then 5 else 0) + (if containsBrandName t then 10 else 0)),
         iss @ (if repeatsWord t then [duplicateWordsIssue] else [])))
   \<and> (length m = 155 \<and> trim m \<noteq> [] \<longrightarrow>
      analyzeMetaDescription m iss =
        (max 0 (50 + 25 + (if hasCallToAction m then 15 else 0)
                  - (if hasDuplicateContent m then 10 else 0)),
         iss @ (if hasCallToAction m then [] else [noCallToActionIssue])
             @ (if hasDuplicateContent m then [genericDescriptionIssue] else [])))
   \<and> (trim b = [] \<longrightarrow>
      analyzeTitleTag b iss = (0, iss @ [missingTitleIssue])
      \<and> analyzeMetaDescription b iss = (0, iss @ [missingDescriptionIssue]))"
proof (intro conjI impI)
  assume a: "length t = 55 \<and> trim t \<noteq> []"
  then have "t \<noteq> []" by (auto dest: trim_nonempty)
  with a show "analyzeTitleTag t iss =
        (max 0 (50 + 20 - (if repeatsWord t then 5 else 0) + (if containsBrandName t then 10 else 0)),
         iss @ (if repeatsWord t then [duplicateWordsIssue] else []))"
    by (simp add: analyzeTitleTag_def Let_def repeatsWord_def duplicateWordsIssue_def)
next
  assume a: "length m = 155 \<and> trim m \<noteq> []"
  then have "m \<noteq> []" by (auto dest: trim_nonempty)
  with a show "analyzeMetaDescription m iss =
        (max 0 (50 + 25 + (if hasCallToAction m then 15 else 0)
                  - (if hasDuplicateContent m then 10 else 0)),
         iss @ (if hasCallToAction m then [] else [noCallToActionIssue])
             @ (if hasDuplicateContent m then [genericDescriptionIssue] else []))"
    by (simp add: analyzeMetaDescription_def Let_def noCallToActionIssue_def
          genericDescriptionIssue_def)
next
  assume "trim b = []"
  then show "analyzeTitleTag b iss = (0, iss @ [missingTitleIssue])"
    by (simp add: analyzeTitleTag_def missingTitleIssue_def)
next
  assume "trim b = []"
  then show "analyzeMetaDescription b iss = (0, iss @ [missingDescriptionIssue])"
    by (simp add: analyzeMetaDescription_def missingDescriptionIssue_def)
qed

theorem good_length_branches_witness:
  "length title55 = 55 \<and> trim title55 \<noteq> []
   \<and> length description155 = 155 \<and> trim description155 \<noteq> []
   \<and> analyzeTitleTag title55 [] = (80, [])
   \<and> analyzeMetaDescription description155 [] = (90, [])
   \<and> trim blank155 = []
   \<and> analyzeTitleTag blank155 [] = (0, [missingTitleIssue])
   \<and> analyzeMetaDescription blank155 [] = (0, [missingDescriptionIssue])"
proof -
  have h1: "length title55 = 55 \<and> trim title55 \<noteq> []"
    unfolding title55_def by code_simp
  have h2: "length description155 = 155 \<and> trim description155 \<noteq> []"
    unfolding description155_def by code_simp
  have h3: "trim blank155 = []"
    unfolding blank155_def by code_simp
  have e1: "repeatsWord title55 = False" "containsBrandName title55 = True"
    unfolding title55_def by code_simp+
  have e2: "hasCallToAction description155 = True" "hasDuplicateContent description155 = False"
    unfolding description155_def by code_simp+
  from good_length_branches [of title55 "[]" description155 blank155] h1 h2 h3
  show ?thesis by (simp add: e1 e2)
qed

end
